theory Spec2Isabelle
  imports Complex_Main
begin

section \<open>Python values the simulator relies on\<close>

text \<open>
  Exceptions are values. \<open>KeyboardInterrupt\<close> and \<open>SystemExit\<close> derive from
  \<open>BaseException\<close> only; every other constructor is a subclass of \<open>Exception\<close>,
  which is what the handlers of \<open>adsb_simulator.py\<close> (\<open>except Exception\<close>) catch.
\<close>

datatype exn =
    AttributeError string
  | KeyError string
  | TypeError
  | ValueError
  | ZeroDivisionError
  | OSError
  | YAMLError
  | BufferError
  | KafkaException
  | KeyboardInterrupt
  | SystemExit int

fun is_Exception :: "exn \<Rightarrow> bool" where
  "is_Exception KeyboardInterrupt = False"
| "is_Exception (SystemExit c) = False"
| "is_Exception e = True"

text \<open>
  Python numbers (\<open>int\<close> and \<open>float\<close> mixed freely by the source) are reals here, and
  sums, products and quotients are exact. The remainder \<open>x % m\<close> of floats is not: it
  is \<open>fmod\<close>, which has the sign of \<open>x\<close> and is exact, and when that differs in sign
  from \<open>m\<close> the interpreter adds \<open>m\<close> in double precision, rounding to the nearest
  double with ties to even. \<open>round_double\<close> is that rounding (the exponent is bounded
  below, for subnormal numbers; overflow does not occur at the magnitudes met here):
  a small negative \<open>x\<close> gives \<open>x % 360 = 360.0\<close>.
\<close>

definition round_half_even :: "real \<Rightarrow> int" where
  "round_half_even y =
     (let f = \<lfloor>y\<rfloor>
      in if y - of_int f < 1 / 2 then f
         else if 1 / 2 < y - of_int f then f + 1
         else if even f then f else f + 1)"

definition round_double :: "real \<Rightarrow> real" where
  "round_double x =
     (if x = 0 then 0
      else let e = max \<lfloor>log 2 \<bar>x\<bar>\<rfloor> (- 1022);
               ulp = 2 powr (of_int e - 52)
           in ulp * of_int (round_half_even (x / ulp)))"

definition fmod :: "real \<Rightarrow> real \<Rightarrow> real" where
  "fmod x m = x - m * of_int (if 0 \<le> x / m then \<lfloor>x / m\<rfloor> else \<lceil>x / m\<rceil>)"

definition py_mod :: "real \<Rightarrow> real \<Rightarrow> real" where
  "py_mod x m =
     (let md = fmod x m
      in if md \<noteq> 0 \<and> ((m < 0) \<noteq> (md < 0)) then round_double (md + m) else md)"

fun str_of_nat :: "nat \<Rightarrow> string" where
  "str_of_nat n =
     (if n < 10 then [''0123456789'' ! n]
      else str_of_nat (n div 10) @ [''0123456789'' ! (n mod 10)])"

declare str_of_nat.simps [simp del]

subsection \<open>The global random module\<close>

text \<open>
  The state of \<open>random\<close> is the stream of raw values it will deliver; \<open>random.random()\<close>
  takes the fractional part of the next one, so that every stream is a generator state
  and every draw lies in \<open>[0, 1)\<close>. \<open>uniform\<close> is the library's \<open>a + (b - a) * random()\<close>;
  \<open>randint a b\<close> and \<open>choice\<close> scale one draw to the integers \<open>a..b\<close> and to an index.
\<close>

type_synonym rng = "nat \<Rightarrow> real"

definition random_random :: "rng \<Rightarrow> real \<times> rng" where
  "random_random r = (frac (r 0), \<lambda>n. r (Suc n))"

definition random_uniform :: "real \<Rightarrow> real \<Rightarrow> rng \<Rightarrow> real \<times> rng" where
  "random_uniform a b r = (let (u, r') = random_random r in (a + (b - a) * u, r'))"

definition random_randint :: "int \<Rightarrow> int \<Rightarrow> rng \<Rightarrow> int \<times> rng" where
  "random_randint a b r =
     (let (u, r') = random_random r in (a + \<lfloor>u * of_int (b - a + 1)\<rfloor>, r'))"

definition random_choice :: "'a list \<Rightarrow> rng \<Rightarrow> 'a \<times> rng" where
  "random_choice xs r =
     (let (u, r') = random_random r in (xs ! nat \<lfloor>u * of_nat (length xs)\<rfloor>, r'))"

subsection \<open>Geodesy (the geopy library)\<close>

text \<open>
  \<open>Point(lat, lon)\<close> is a pair. The three geopy operations the source calls are
  parameters: \<open>geodesic(p, q).kilometers\<close>, \<open>geodesic(p, q).nautical\<close> and
  \<open>geodesic(kilometers=d).destination(origin, bearing)\<close>. They are total: a latitude
  the library would refuse does not arise, since the source takes every latitude from
  \<open>uniform(-60, 60)\<close> or from \<open>destination\<close> itself.
\<close>

type_synonym point = "real \<times> real"

record geodesy =
  kilometers :: "point \<Rightarrow> point \<Rightarrow> real"
  nautical :: "point \<Rightarrow> point \<Rightarrow> real"
  destination :: "real \<Rightarrow> point \<Rightarrow> real \<Rightarrow> point"

section \<open>Aircraft\<close>

record waypoint =
  wp_latitude :: real
  wp_longitude :: real
  wp_name :: string

text \<open>
  The attributes of an \<open>Aircraft\<close> whose constructor has run. The waypoint index is a
  natural number: the source assigns it 0 or adds 1 to it, nothing else.
\<close>

record aircraft =
  icao_address :: string
  aircraft_type :: string
  callsign :: string
  latitude :: real
  longitude :: real
  altitude :: real
  ground_speed :: real
  max_speed :: real
  min_speed :: real
  climb_rate :: real
  heading :: real
  target_altitude :: real
  target_speed :: real
  target_heading :: real
  waypoints :: "waypoint list"
  current_waypoint_index :: nat
  emergency_state :: bool
  conflict_state :: bool
  squawk :: string
  last_update :: real

subsection \<open>Flight plan generation\<close>

text \<open>
  \<open>_generate_flight_plan\<close> reads \<open>self.waypoints\<close> only inside the loop, at
  \<open>self.waypoints.append(waypoint)\<close>. Its argument \<open>wps\<close> is the binding of that
  attribute when the method runs: \<open>None\<close> when the attribute has not been assigned yet,
  in which case the first \<open>append\<close> raises \<open>AttributeError\<close>. The loop variable \<open>i\<close>
  ranges over \<open>range(num_waypoints)\<close>.
\<close>

fun flight_plan_loop ::
  "geodesy \<Rightarrow> nat list \<Rightarrow> point \<Rightarrow> waypoint list option \<Rightarrow> rng
    \<Rightarrow> exn + (waypoint list option \<times> rng)" where
  "flight_plan_loop g [] cur wps r = Inr (wps, r)"
| "flight_plan_loop g (i # is) cur wps r =
     (let (distance_km, r1) = random_uniform 185 555 r;
          (bearing, r2) = random_uniform 0 360 r1;
          dest = destination g distance_km cur bearing;
          wp = \<lparr>wp_latitude = fst dest, wp_longitude = snd dest,
                 wp_name = ''WPT'' @ str_of_nat (i + 1)\<rparr>
      in case wps of
           None \<Rightarrow> Inl (AttributeError ''waypoints'')
         | Some ws \<Rightarrow> flight_plan_loop g is dest (Some (ws @ [wp])) r2)"

definition generate_flight_plan ::
  "geodesy \<Rightarrow> point \<Rightarrow> waypoint list option \<Rightarrow> rng
    \<Rightarrow> exn + (waypoint list option \<times> rng)" where
  "generate_flight_plan g pos wps r =
     (let (num_waypoints, r1) = random_randint 3 5 r
      in flight_plan_loop g [0..<nat num_waypoints] pos wps r1)"

subsection \<open>Construction\<close>

text \<open>
  The eleven attributes \<open>_initialize_flight_parameters\<close> assigns, and the binding of
  \<open>self.waypoints\<close> after its call to \<open>_generate_flight_plan\<close>.
\<close>

record flight_parameters =
  fp_latitude :: real
  fp_longitude :: real
  fp_altitude :: real
  fp_ground_speed :: real
  fp_max_speed :: real
  fp_min_speed :: real
  fp_climb_rate :: real
  fp_heading :: real
  fp_target_altitude :: real
  fp_target_speed :: real
  fp_target_heading :: real
  fp_waypoints :: "waypoint list option"

definition initialize_flight_parameters ::
  "geodesy \<Rightarrow> string \<Rightarrow> waypoint list option \<Rightarrow> rng \<Rightarrow> exn + (flight_parameters \<times> rng)" where
  "initialize_flight_parameters g ty wps r =
     (let (lat, r1) = random_uniform (- 60) 60 r;
          (lon, r2) = random_uniform (- 180) 180 r1;
          (alt, r3) = (if ty = ''jet'' then random_randint 25000 42000 r2
                       else random_randint 8000 18000 r2);
          (gs, r4) = (if ty = ''jet'' then random_randint 400 550 r3
                      else random_randint 150 220 r3);
          mx = (if ty = ''jet'' then 600 else 250);
          mn = (if ty = ''jet'' then 200 else 80);
          (cr, r5) = (if ty = ''jet'' then random_uniform 1500 3000 r4
                      else random_uniform 500 1200 r4);
          (hd, r6) = random_randint 0 359 r5
      in case generate_flight_plan g (lat, lon) wps r6 of
           Inl e \<Rightarrow> Inl e
         | Inr (wps', r7) \<Rightarrow>
             Inr (\<lparr>fp_latitude = lat, fp_longitude = lon, fp_altitude = of_int alt,
                    fp_ground_speed = of_int gs, fp_max_speed = mx, fp_min_speed = mn,
                    fp_climb_rate = cr, fp_heading = of_int hd,
                    fp_target_altitude = of_int alt, fp_target_speed = of_int gs,
                    fp_target_heading = of_int hd, fp_waypoints = wps'\<rparr>, r7))"

text \<open>
  Lines 78 to 87 of \<open>__init__\<close>: the assignments that follow the call of
  \<open>_initialize_flight_parameters\<close>. They bind \<open>self.waypoints\<close> to a new empty list.
\<close>

definition init_tail ::
  "string \<Rightarrow> string \<Rightarrow> string \<Rightarrow> flight_parameters \<Rightarrow> real \<Rightarrow> aircraft" where
  "init_tail icao ty cs fp now =
     \<lparr>icao_address = icao, aircraft_type = ty, callsign = cs,
      latitude = fp_latitude fp, longitude = fp_longitude fp, altitude = fp_altitude fp,
      ground_speed = fp_ground_speed fp, max_speed = fp_max_speed fp,
      min_speed = fp_min_speed fp, climb_rate = fp_climb_rate fp, heading = fp_heading fp,
      target_altitude = fp_target_altitude fp, target_speed = fp_target_speed fp,
      target_heading = fp_target_heading fp,
      waypoints = [], current_waypoint_index = 0,
      emergency_state = False, conflict_state = False, squawk = ''1200'',
      last_update = now\<rparr>"

text \<open>
  \<open>Aircraft.__init__\<close>. When \<open>_initialize_flight_parameters\<close> is called (line 75)
  nothing has assigned \<open>self.waypoints\<close> yet (line 78 does), hence the \<open>None\<close>.
  \<open>now\<close> is the reading of \<open>time.time()\<close>. The \<open>Faker\<close> object the constructor stores
  is never used and has no counterpart here.
\<close>

definition airlines :: "string list" where
  "airlines = [''UAL'', ''DAL'', ''AAL'', ''SWA'', ''JBU'', ''DL'', ''AA'', ''UA'', ''WN'', ''B6'']"

definition Aircraft_init ::
  "geodesy \<Rightarrow> real \<Rightarrow> string \<Rightarrow> string \<Rightarrow> rng \<Rightarrow> exn + (aircraft \<times> rng)" where
  "Aircraft_init g now icao ty r =
     (let (airline, r1) = random_choice airlines r;
          (number, r2) = random_randint 1000 9999 r1;
          cs = airline @ str_of_nat (nat number)
      in case initialize_flight_parameters g ty None r2 of
           Inl e \<Rightarrow> Inl e
         | Inr (fp, r3) \<Rightarrow> Inr (init_tail icao ty cs fp now, r3))"

subsection \<open>Bearing and heading difference\<close>

definition radians :: "real \<Rightarrow> real" where
  "radians x = x * pi / 180"

definition degrees :: "real \<Rightarrow> real" where
  "degrees x = x * 180 / pi"

text \<open>\<open>math.atan2\<close> on the reals (signed zeros are not distinguished).\<close>

definition atan2 :: "real \<Rightarrow> real \<Rightarrow> real" where
  "atan2 y x =
     (if 0 < x then arctan (y / x)
      else if x < 0 then (if 0 \<le> y then arctan (y / x) + pi else arctan (y / x) - pi)
      else if 0 < y then pi / 2
      else if y < 0 then - (pi / 2)
      else 0)"

definition calculate_bearing :: "point \<Rightarrow> point \<Rightarrow> real" where
  "calculate_bearing point1 point2 =
     (let lat1 = radians (fst point1); lon1 = radians (snd point1);
          lat2 = radians (fst point2); lon2 = radians (snd point2);
          dlon = lon2 - lon1;
          y = sin dlon * cos lat2;
          x = cos lat1 * sin lat2 - sin lat1 * cos lat2 * cos dlon;
          bearing = degrees (atan2 y x)
      in py_mod (bearing + 360) 360)"

text \<open>The two \<open>while\<close> loops of \<open>_normalize_heading_difference\<close>, in their order.\<close>

function normalize_down :: "real \<Rightarrow> real" where
  "normalize_down diff = (if diff > 180 then normalize_down (diff - 360) else diff)"
  by pat_completeness auto
termination
proof (relation "measure (\<lambda>d. nat \<lceil>d\<rceil>)")
  fix diff :: real
  assume "180 < diff"
  then have "0 < \<lceil>diff\<rceil>"
    by (simp add: less_ceiling_iff)
  moreover have "\<lceil>diff - 360\<rceil> = \<lceil>diff\<rceil> - 360"
    by (rule ceiling_diff_numeral)
  ultimately show "(diff - 360, diff) \<in> measure (\<lambda>d. nat \<lceil>d\<rceil>)"
    by simp
qed simp

function normalize_up :: "real \<Rightarrow> real" where
  "normalize_up diff = (if diff < - 180 then normalize_up (diff + 360) else diff)"
  by pat_completeness auto
termination
proof (relation "measure (\<lambda>d. nat (- \<lfloor>d\<rfloor>))")
  fix diff :: real
  assume "diff < - 180"
  then have "\<lfloor>diff\<rfloor> < 0"
    by (simp add: floor_less_iff)
  moreover have "\<lfloor>diff + 360\<rfloor> = \<lfloor>diff\<rfloor> + 360"
    by simp
  ultimately show "(diff + 360, diff) \<in> measure (\<lambda>d. nat (- \<lfloor>d\<rfloor>))"
    by simp
qed simp

declare normalize_down.simps [simp del]
declare normalize_up.simps [simp del]

definition normalize_heading_difference :: "real \<Rightarrow> real" where
  "normalize_heading_difference diff = normalize_up (normalize_down diff)"

subsection \<open>Advancing one aircraft\<close>

text \<open>
  Lines 147 to 167 of \<open>update_position\<close>: steer to the current waypoint and, within
  5 km of it, step the index; past the last waypoint the list is cleared, the index
  reset and a new plan generated (the attribute is bound, to the empty list).
\<close>

definition track_waypoint :: "geodesy \<Rightarrow> aircraft \<Rightarrow> rng \<Rightarrow> exn + (aircraft \<times> rng)" where
  "track_waypoint g a r =
     (if current_waypoint_index a < length (waypoints a) then
        let target = waypoints a ! current_waypoint_index a;
            current_pos = (latitude a, longitude a);
            target_pos = (wp_latitude target, wp_longitude target);
            distance_to_target = kilometers g current_pos target_pos;
            bearing_to_target = calculate_bearing current_pos target_pos;
            a1 = a\<lparr>target_heading := bearing_to_target\<rparr>
        in if distance_to_target < 5 then
             let a2 = a1\<lparr>current_waypoint_index := current_waypoint_index a1 + 1\<rparr>
             in if current_waypoint_index a2 \<ge> length (waypoints a2) then
                  (case generate_flight_plan g (latitude a2, longitude a2) (Some []) r of
                     Inl e \<Rightarrow> Inl e
                   | Inr (None, r') \<Rightarrow> Inl (AttributeError ''waypoints'')
                   | Inr (Some ws, r') \<Rightarrow>
                       Inr (a2\<lparr>waypoints := ws, current_waypoint_index := 0\<rparr>, r'))
                else Inr (a2, r)
           else Inr (a1, r)
      else Inr (a, r))"

definition update_speed :: "real \<Rightarrow> aircraft \<Rightarrow> aircraft" where
  "update_speed delta_time a =
     (let max_acceleration = 2;
          speed_diff = target_speed a - ground_speed a;
          a1 = (if \<bar>speed_diff\<bar> > max_acceleration * delta_time
                then a\<lparr>ground_speed := ground_speed a
                        + (if speed_diff > 0 then 1 else - 1) * max_acceleration * delta_time\<rparr>
                else a\<lparr>ground_speed := target_speed a\<rparr>)
      in a1\<lparr>ground_speed := max (min_speed a1) (min (max_speed a1) (ground_speed a1))\<rparr>)"

definition update_altitude :: "real \<Rightarrow> aircraft \<Rightarrow> aircraft" where
  "update_altitude delta_time a =
     (let altitude_diff = target_altitude a - altitude a;
          max_climb_rate_per_sec = climb_rate a / 60;
          a1 = (if \<bar>altitude_diff\<bar> > max_climb_rate_per_sec * delta_time
                then a\<lparr>altitude := altitude a
                        + (if altitude_diff > 0 then 1 else - 1) * max_climb_rate_per_sec * delta_time\<rparr>
                else a\<lparr>altitude := target_altitude a\<rparr>)
      in a1\<lparr>altitude := max 1000 (min 60000 (altitude a1))\<rparr>)"

definition add_realistic_variations :: "aircraft \<Rightarrow> rng \<Rightarrow> aircraft \<times> rng" where
  "add_realistic_variations a r =
     (let (dh, r1) = random_uniform (- 0.5) 0.5 r;
          a1 = a\<lparr>heading := heading a + dh\<rparr>;
          a2 = a1\<lparr>heading := py_mod (heading a1) 360\<rparr>;
          (ds, r2) = random_uniform (- 2) 2 r1;
          a3 = a2\<lparr>ground_speed := ground_speed a2 + ds\<rparr>;
          a4 = a3\<lparr>ground_speed := max (min_speed a3) (min (max_speed a3) (ground_speed a3))\<rparr>;
          (da, r3) = random_uniform (- 50) 50 r2;
          a5 = a4\<lparr>altitude := altitude a4 + da\<rparr>
      in (a5\<lparr>altitude := max 1000 (min 60000 (altitude a5))\<rparr>, r3))"

text \<open>Lines 169 to 179 of \<open>update_position\<close>: turn towards the target heading.\<close>

definition update_heading :: "real \<Rightarrow> aircraft \<Rightarrow> aircraft" where
  "update_heading delta_time a =
     (let max_turn_rate = 3;
          heading_diff = normalize_heading_difference (target_heading a - heading a);
          a1 = (if \<bar>heading_diff\<bar> > max_turn_rate * delta_time
                then a\<lparr>heading := heading a
                        + (if heading_diff > 0 then 1 else - 1) * max_turn_rate * delta_time\<rparr>
                else a\<lparr>heading := target_heading a\<rparr>)
      in a1\<lparr>heading := py_mod (heading a1) 360\<rparr>)"

text \<open>Lines 185 to 192 of \<open>update_position\<close>: the new position.\<close>

definition translate :: "geodesy \<Rightarrow> real \<Rightarrow> aircraft \<Rightarrow> aircraft" where
  "translate g delta_time a =
     (let distance_km = (ground_speed a * 1.852) * (delta_time / 3600)
      in if distance_km > 0
         then let new_pos = destination g distance_km (latitude a, longitude a) (heading a)
              in a\<lparr>latitude := fst new_pos, longitude := snd new_pos\<rparr>
         else a)"

definition update_position ::
  "geodesy \<Rightarrow> real \<Rightarrow> aircraft \<Rightarrow> rng \<Rightarrow> exn + (aircraft \<times> rng)" where
  "update_position g delta_time a r =
     (if waypoints a = [] then Inr (a, r)
      else case track_waypoint g a r of
        Inl e \<Rightarrow> Inl e
      | Inr (a1, r1) \<Rightarrow>
          let a2 = update_heading delta_time a1;
              a3 = update_speed delta_time a2;
              a4 = update_altitude delta_time a3;
              a5 = translate g delta_time a4
          in Inr (add_realistic_variations a5 r1))"

subsection \<open>Emergency and conflict flags\<close>

definition emergency_squawks :: "(string \<times> string) list" where
  "emergency_squawks =
     [(''hijack'', ''7500''), (''communication'', ''7600''), (''general'', ''7700'')]"

definition trigger_emergency :: "string \<Rightarrow> aircraft \<Rightarrow> aircraft" where
  "trigger_emergency emergency_type a =
     a\<lparr>emergency_state := True,
       squawk := (case map_of emergency_squawks emergency_type of
                    Some s \<Rightarrow> s | None \<Rightarrow> ''7700'')\<rparr>"

definition clear_emergency :: "aircraft \<Rightarrow> aircraft" where
  "clear_emergency a = a\<lparr>emergency_state := False, squawk := ''1200''\<rparr>"

definition set_conflict_state :: "bool \<Rightarrow> aircraft \<Rightarrow> aircraft" where
  "set_conflict_state in_conflict a = a\<lparr>conflict_state := in_conflict\<rparr>"

subsection \<open>Sequences of calls on one aircraft\<close>


datatype call =
    UpdatePosition real
  | TriggerEmergency string
  | ClearEmergency
  | SetConflictState bool

fun perform :: "geodesy \<Rightarrow> call \<Rightarrow> aircraft \<Rightarrow> rng \<Rightarrow> exn + (aircraft \<times> rng)" where
  "perform g (UpdatePosition delta_time) a r = update_position g delta_time a r"
| "perform g (TriggerEmergency emergency_type) a r = Inr (trigger_emergency emergency_type a, r)"
| "perform g ClearEmergency a r = Inr (clear_emergency a, r)"
| "perform g (SetConflictState in_conflict) a r = Inr (set_conflict_state in_conflict a, r)"

fun perform_all :: "geodesy \<Rightarrow> call list \<Rightarrow> aircraft \<Rightarrow> rng \<Rightarrow> exn + (aircraft \<times> rng)" where
  "perform_all g [] a r = Inr (a, r)"
| "perform_all g (c # cs) a r =
     (case perform g c a r of
        Inl e \<Rightarrow> Inl e
      | Inr (a', r') \<Rightarrow> perform_all g cs a' r')"


text \<open>
  The speed envelope \<open>(min_speed, max_speed)\<close> that \<open>_initialize_flight_parameters\<close>
  assigns for a category (lines 98, 99, 104 and 105).
\<close>

definition speed_envelope :: "string \<Rightarrow> real \<times> real" where
  "speed_envelope ty = (if ty = ''jet'' then (200, 600) else (80, 250))"

definition squawk_consistent :: "aircraft \<Rightarrow> bool" where
  "squawk_consistent a = ((squawk a = ''1200'') = (\<not> emergency_state a))"

section \<open>Simulator\<close>

subsection \<open>Configuration values\<close>

text \<open>
  What \<open>yaml.safe_load\<close> can return. A mapping is an association list in which the
  first binding of a key counts. \<open>d[k]\<close> on a mapping raises \<open>KeyError\<close> for an
  absent key; on any other value it raises \<open>TypeError\<close>.
\<close>

datatype yaml =
    YNull
  | YBool bool
  | YInt int
  | YFloat real
  | YStr string
  | YList "yaml list"
  | YDict "(string \<times> yaml) list"

fun subscript :: "yaml \<Rightarrow> string \<Rightarrow> exn + yaml" where
  "subscript (YDict kvs) k = (case map_of kvs k of Some v \<Rightarrow> Inr v | None \<Rightarrow> Inl (KeyError k))"
| "subscript y k = Inl TypeError"

text \<open>\<open>self.config[section][key]\<close>.\<close>

definition config_get :: "yaml \<Rightarrow> string \<Rightarrow> string \<Rightarrow> exn + yaml" where
  "config_get cfg section key =
     (case subscript cfg section of Inl e \<Rightarrow> Inl e | Inr sec \<Rightarrow> subscript sec key)"

text \<open>
  A configuration value used in arithmetic or in a comparison with a float, and one
  used as the argument of \<open>range\<close>; other values raise \<open>TypeError\<close> there.
\<close>

fun as_number :: "yaml \<Rightarrow> exn + real" where
  "as_number (YInt n) = Inr (of_int n)"
| "as_number (YFloat x) = Inr x"
| "as_number (YBool b) = Inr (if b then 1 else 0)"
| "as_number y = Inl TypeError"

fun as_count :: "yaml \<Rightarrow> exn + nat" where
  "as_count (YInt n) = Inr (nat n)"
| "as_count (YBool b) = Inr (if b then 1 else 0)"
| "as_count y = Inl TypeError"

definition default_config :: yaml where
  "default_config =
     YDict [(''simulation'',
              YDict [(''num_aircraft'', YInt 75),
                     (''message_interval_min'', YInt 1),
                     (''message_interval_max'', YInt 5),
                     (''emergency_frequency'', YFloat 0.001),
                     (''separation_frequency'', YFloat 0.002)]),
            (''kafka'',
              YDict [(''bootstrap_servers'', YStr ''localhost:9092''),
                     (''topic'', YStr ''adsb_messages'')]),
            (''aircraft_types'', YDict [(''jet_ratio'', YFloat 0.7)])]"

subsection \<open>Reports\<close>

record adsb_message =
  msg_icao_address :: string
  msg_callsign :: string
  msg_latitude :: real
  msg_longitude :: real
  msg_altitude :: int
  msg_ground_speed :: int
  msg_heading :: int
  msg_timestamp :: string
  msg_squawk :: string
  msg_aircraft_type :: string

text \<open>\<open>round(x, 6)\<close> (ties to even) and \<open>int(x)\<close> (truncation towards zero).\<close>

definition py_round6 :: "real \<Rightarrow> real" where
  "py_round6 x = of_int (round_half_even (x * 1000000)) / 1000000"

definition py_int :: "real \<Rightarrow> int" where
  "py_int x = (if 0 \<le> x then \<lfloor>x\<rfloor> else \<lceil>x\<rceil>)"

definition generate_message :: "string \<Rightarrow> aircraft \<Rightarrow> adsb_message" where
  "generate_message timestamp a =
     \<lparr>msg_icao_address = icao_address a, msg_callsign = callsign a,
      msg_latitude = py_round6 (latitude a), msg_longitude = py_round6 (longitude a),
      msg_altitude = py_int (altitude a), msg_ground_speed = py_int (ground_speed a),
      msg_heading = py_int (heading a) mod 360, msg_timestamp = timestamp,
      msg_squawk = squawk a, msg_aircraft_type = aircraft_type a\<rparr>"

subsection \<open>The world outside the source file\<close>

text \<open>
  The collaborators of the simulator, as parameters: geopy, the configuration file
  (\<open>open\<close> and \<open>yaml.safe_load\<close>), the bus client with a producer state of type \<open>'p\<close>
  (\<open>Producer(...)\<close>, \<open>AdminClient(...)\<close>, which returns nothing or raises, the creation
  of the topic with how its future ends, \<open>produce\<close>, \<open>poll\<close>, \<open>flush\<close>),
  \<open>json.dumps\<close> and \<open>isoformat\<close>. A call that raises returns \<open>Inl\<close> and leaves the
  producer as it was. \<open>truthy\<close> is the truth value Python gives a producer object.
\<close>

datatype topic_result = Created | AlreadyExists | CreationFailed

record 'p world =
  geo :: geodesy
  read_config :: "string \<Rightarrow> exn + yaml"
  new_producer :: "yaml \<Rightarrow> exn + 'p"
  new_admin_client :: "yaml \<Rightarrow> exn option"
  create_topics :: "yaml \<Rightarrow> yaml \<Rightarrow> exn + topic_result"
  produce :: "'p \<Rightarrow> yaml \<Rightarrow> string \<Rightarrow> string \<Rightarrow> exn + 'p"
  poll :: "'p \<Rightarrow> exn + 'p"
  flush :: "'p \<Rightarrow> exn + 'p"
  truthy :: "'p \<Rightarrow> bool"
  to_json :: "adsb_message \<Rightarrow> string"
  isoformat :: "real \<Rightarrow> string"

subsection \<open>Simulator state\<close>

text \<open>
  Besides the attributes of \<open>ADSBSimulator\<close>, the state carries what the module shares:
  the generator of \<open>random\<close>, the readings \<open>time.time()\<close> will return, and a trace of
  the calls made so far (log records and the steps of a pass), in the order made.
\<close>

datatype level = INFO | WARNING | ERROR

datatype event =
    Log level string
  | Advance nat
  | EmissionTest nat
  | Publish nat
  | SeparationScan
  | EmergencySampling
  | Poll
  | Statistics
  | Sleep
  | Flush

record 'p simulator =
  config :: yaml
  aircraft :: "aircraft list"
  kafka_producer :: "'p option"
  running :: bool
  messages_sent :: nat
  start_time :: real
  last_stats_time :: real
  rng :: rng
  clock :: "nat \<Rightarrow> real"
  trace :: "event list"

definition traced :: "event \<Rightarrow> 'p simulator \<Rightarrow> 'p simulator" where
  "traced ev s = s\<lparr>trace := trace s @ [ev]\<rparr>"

definition time_time :: "'p simulator \<Rightarrow> real \<times> 'p simulator" where
  "time_time s = (clock s 0, s\<lparr>clock := (\<lambda>n. clock s (Suc n))\<rparr>)"

text \<open>
  The test \<open>if self.kafka_producer\<close>: the producer when the attribute is not \<open>None\<close>
  and the object is true.
\<close>

definition active_producer :: "'p world \<Rightarrow> 'p simulator \<Rightarrow> 'p option" where
  "active_producer w s =
     (case kafka_producer s of
        None \<Rightarrow> None
      | Some p \<Rightarrow> if truthy w p then Some p else None)"

text \<open>A \<open>for\<close> loop over indices whose body may raise: the exception ends the loop.\<close>

fun for_each :: "(nat \<Rightarrow> 's \<Rightarrow> exn option \<times> 's) \<Rightarrow> nat list \<Rightarrow> 's \<Rightarrow> exn option \<times> 's" where
  "for_each body [] s = (None, s)"
| "for_each body (i # is) s =
     (case body i s of
        (Some e, s') \<Rightarrow> (Some e, s')
      | (None, s') \<Rightarrow> for_each body is s')"

subsection \<open>Start-up\<close>

definition load_config :: "'p world \<Rightarrow> string \<Rightarrow> exn + (yaml \<times> event)" where
  "load_config w config_path =
     (case read_config w config_path of
        Inr cfg \<Rightarrow> Inr (cfg, Log INFO ''Configuration loaded'')
      | Inl e \<Rightarrow>
          if is_Exception e then Inr (default_config, Log ERROR ''Failed to load config'')
          else Inl e)"

text \<open>
  \<open>_setup_kafka\<close>: everything is inside one \<open>try\<close>, whose handler logs and sets the
  producer to \<open>None\<close>, also when the producer had been built and a later step raised.
\<close>

definition setup_kafka_failed :: "exn \<Rightarrow> 'p simulator \<Rightarrow> exn option \<times> 'p simulator" where
  "setup_kafka_failed e s =
     (if is_Exception e
      then (None, (traced (Log ERROR ''Failed to setup Kafka'') s)\<lparr>kafka_producer := None\<rparr>)
      else (Some e, s))"

definition setup_kafka :: "'p world \<Rightarrow> 'p simulator \<Rightarrow> exn option \<times> 'p simulator" where
  "setup_kafka w s =
     (case config_get (config s) ''kafka'' ''bootstrap_servers'' of
        Inl e \<Rightarrow> setup_kafka_failed e s
      | Inr servers \<Rightarrow>
     (case new_producer w servers of
        Inl e \<Rightarrow> setup_kafka_failed e s
      | Inr p \<Rightarrow>
     (let s1 = s\<lparr>kafka_producer := Some p\<rparr>
      in case new_admin_client w servers of
        Some e \<Rightarrow> setup_kafka_failed e s1
      | None \<Rightarrow>
     (case config_get (config s1) ''kafka'' ''topic'' of
        Inl e \<Rightarrow> setup_kafka_failed e s1
      | Inr topic_name \<Rightarrow>
     (case create_topics w servers topic_name of
        Inl e \<Rightarrow> setup_kafka_failed e s1
      | Inr res \<Rightarrow>
          (None, traced (Log INFO ''Kafka producer configured successfully'')
                   (traced (case res of
                            Created \<Rightarrow> Log INFO ''Topic created successfully''
                          | AlreadyExists \<Rightarrow> Log INFO ''Topic already exists''
                          | CreationFailed \<Rightarrow> Log ERROR ''Failed to create topic'') s1)))))))"

definition icao_hex :: "nat \<Rightarrow> string" where
  "icao_hex n = map (\<lambda>k. ''0123456789ABCDEF'' ! ((n div 16 ^ k) mod 16)) [5, 4, 3, 2, 1, 0]"

text \<open>The body of the loop of \<open>_generate_aircraft_fleet\<close>.\<close>

definition add_aircraft :: "'p world \<Rightarrow> yaml \<Rightarrow> nat \<Rightarrow> 'p simulator \<Rightarrow> exn option \<times> 'p simulator" where
  "add_aircraft w jet_ratio i s =
     (let (n, r1) = random_randint 0 16777215 (rng s);
          icao = icao_hex (nat n);
          (u, r2) = random_random r1;
          s1 = s\<lparr>rng := r2\<rparr>
      in case as_number jet_ratio of
           Inl e \<Rightarrow> (Some e, s1)
         | Inr ratio \<Rightarrow>
             let ty = (if u < ratio then ''jet'' else ''prop'');
                 (now, s2) = time_time s1
             in case Aircraft_init (geo w) now icao ty (rng s1) of
                  Inl e \<Rightarrow> (Some e, s1)
                | Inr (a, r3) \<Rightarrow> (None, s2\<lparr>aircraft := aircraft s2 @ [a], rng := r3\<rparr>))"

text \<open>
  \<open>_generate_aircraft_fleet\<close>. Its last line formats \<open>int(num_aircraft * jet_ratio)\<close>;
  a ratio that is not a number gets there only when the loop has not run, and then the
  product is an empty string (\<open>ValueError\<close>) or is not defined (\<open>TypeError\<close>).
\<close>

definition generate_aircraft_fleet :: "'p world \<Rightarrow> 'p simulator \<Rightarrow> exn option \<times> 'p simulator" where
  "generate_aircraft_fleet w s =
     (case config_get (config s) ''simulation'' ''num_aircraft'' of
        Inl e \<Rightarrow> (Some e, s)
      | Inr num_aircraft \<Rightarrow>
     (case config_get (config s) ''aircraft_types'' ''jet_ratio'' of
        Inl e \<Rightarrow> (Some e, s)
      | Inr jet_ratio \<Rightarrow>
     (case as_count num_aircraft of
        Inl e \<Rightarrow> (Some e, s)
      | Inr n \<Rightarrow>
     (case for_each (add_aircraft w jet_ratio) [0..<n] s of
        (Some e, s1) \<Rightarrow> (Some e, s1)
      | (None, s1) \<Rightarrow>
          (case as_number jet_ratio of
             Inl e \<Rightarrow> (Some (case jet_ratio of YStr x \<Rightarrow> ValueError | _ \<Rightarrow> TypeError), s1)
           | Inr ratio \<Rightarrow> (None, traced (Log INFO ''Generated aircraft'') s1))))))"

text \<open>
  \<open>ADSBSimulator.__init__\<close>, from the generator state and the clock the process starts
  with. \<open>startup_state\<close> is the object after the attribute assignments that follow
  \<open>_load_config\<close>, the trace holding the record \<open>_load_config\<close> logged. When the
  constructor raises, the result is the exception with the records logged so far:
  none when \<open>_load_config\<close> itself raises. The handlers it installs for SIGINT and
  SIGTERM run only on a signal and are not part of the model.
\<close>

definition startup_state :: "yaml \<Rightarrow> event \<Rightarrow> rng \<Rightarrow> (nat \<Rightarrow> real) \<Rightarrow> 'p simulator" where
  "startup_state cfg ev rng0 clock0 =
     \<lparr>config = cfg, aircraft = [], kafka_producer = None, running = False,
      messages_sent = 0, start_time = clock0 0, last_stats_time = clock0 1,
      rng = rng0, clock = (\<lambda>n. clock0 (n + 2)), trace = [ev]\<rparr>"

definition ADSBSimulator_init ::
  "'p world \<Rightarrow> string \<Rightarrow> rng \<Rightarrow> (nat \<Rightarrow> real) \<Rightarrow> (exn \<times> event list) + 'p simulator" where
  "ADSBSimulator_init w config_path rng0 clock0 =
     (case load_config w config_path of
        Inl e \<Rightarrow> Inl (e, [])
      | Inr (cfg, ev) \<Rightarrow>
          (case setup_kafka w (startup_state cfg ev rng0 clock0) of
             (Some e, s1) \<Rightarrow> Inl (e, trace s1)
           | (None, s1) \<Rightarrow>
               (case generate_aircraft_fleet w s1 of
                  (Some e, s2) \<Rightarrow> Inl (e, trace s2)
                | (None, s2) \<Rightarrow> Inr s2)))"

subsection \<open>Separation scan\<close>

definition in_conflict :: "geodesy \<Rightarrow> aircraft \<Rightarrow> aircraft \<Rightarrow> bool" where
  "in_conflict g aircraft1 aircraft2 =
     (let pos1 = (latitude aircraft1, longitude aircraft1);
          pos2 = (latitude aircraft2, longitude aircraft2);
          horizontal_distance = nautical g pos1 pos2;
          vertical_separation = \<bar>altitude aircraft1 - altitude aircraft2\<bar>
      in horizontal_distance < 5 \<and> vertical_separation < 1000)"

text \<open>
  The nested loops of \<open>_check_separation_conflicts\<close>: \<open>conflict_pairs\<close> collects, in
  loop order, the index pairs \<open>(i, j)\<close> with \<open>j\<close> from \<open>i + 1\<close> on that are in conflict.
\<close>

definition conflict_pairs :: "geodesy \<Rightarrow> aircraft list \<Rightarrow> (nat \<times> nat) list" where
  "conflict_pairs g fl =
     concat (map (\<lambda>i. map (Pair i)
                         (filter (\<lambda>j. in_conflict g (fl ! i) (fl ! j)) [Suc i..<length fl]))
                 [0..<length fl])"

fun flag_pair :: "aircraft list \<Rightarrow> nat \<times> nat \<Rightarrow> aircraft list" where
  "flag_pair fl (i, j) =
     (let fl1 = fl[i := set_conflict_state True (fl ! i)]
      in fl1[j := set_conflict_state True (fl1 ! j)])"

definition scan_fleet :: "geodesy \<Rightarrow> aircraft list \<Rightarrow> aircraft list \<times> nat" where
  "scan_fleet g fl =
     (let pairs = conflict_pairs g fl;
          cleared = map (set_conflict_state False) fl
      in (foldl flag_pair cleared pairs, length pairs))"

definition check_separation_conflicts :: "'p world \<Rightarrow> 'p simulator \<Rightarrow> nat \<times> 'p simulator" where
  "check_separation_conflicts w s =
     (let (fl, n) = scan_fleet (geo w) (aircraft s)
      in (n, s\<lparr>aircraft := fl,
               trace := trace s @ replicate n (Log WARNING ''Separation conflict'')\<rparr>))"

subsection \<open>Emergencies\<close>

text \<open>The body of the loop of \<open>_trigger_random_emergencies\<close>, for the aircraft at \<open>i\<close>.\<close>

definition sample_emergency :: "yaml \<Rightarrow> nat \<Rightarrow> 'p simulator \<Rightarrow> exn option \<times> 'p simulator" where
  "sample_emergency emergency_freq i s =
     (if emergency_state (aircraft s ! i) then (None, s)
      else let (u, r1) = random_random (rng s);
               s1 = s\<lparr>rng := r1\<rparr>
           in case as_number emergency_freq of
                Inl e \<Rightarrow> (Some e, s1)
              | Inr freq \<Rightarrow>
                  if u < freq then
                    let (emergency_type, r2) =
                          random_choice [''general'', ''communication'', ''hijack''] (rng s1);
                        a = trigger_emergency emergency_type (aircraft s1 ! i)
                    in (None, traced (Log WARNING ''Emergency triggered'')
                                (s1\<lparr>rng := r2, aircraft := (aircraft s1)[i := a]\<rparr>))
                  else (None, s1))"

definition trigger_random_emergencies :: "'p world \<Rightarrow> 'p simulator \<Rightarrow> exn option \<times> 'p simulator" where
  "trigger_random_emergencies w s =
     (case config_get (config s) ''simulation'' ''emergency_frequency'' of
        Inl e \<Rightarrow> (Some e, s)
      | Inr emergency_freq \<Rightarrow>
          for_each (sample_emergency emergency_freq) [0..<length (aircraft s)] s)"

subsection \<open>Publishing\<close>

definition publish_failed :: "exn \<Rightarrow> 'p simulator \<Rightarrow> exn option \<times> 'p simulator" where
  "publish_failed e s =
     (if is_Exception e then (None, traced (Log ERROR ''Failed to publish message'') s)
      else (Some e, s))"

definition publish_message ::
  "'p world \<Rightarrow> adsb_message \<Rightarrow> 'p simulator \<Rightarrow> exn option \<times> 'p simulator" where
  "publish_message w message s =
     (case active_producer w s of
        None \<Rightarrow> (None, s)
      | Some p \<Rightarrow>
          (case config_get (config s) ''kafka'' ''topic'' of
             Inl e \<Rightarrow> publish_failed e s
           | Inr topic \<Rightarrow>
               (case produce w p topic (msg_icao_address message) (to_json w message) of
                  Inl e \<Rightarrow> publish_failed e s
                | Inr p' \<Rightarrow>
                    (None, s\<lparr>kafka_producer := Some p',
                             messages_sent := messages_sent s + 1\<rparr>))))"

definition log_statistics :: "'p simulator \<Rightarrow> 'p simulator" where
  "log_statistics s =
     (let (current_time, s1) = time_time s;
          elapsed = current_time - last_stats_time s1
      in if elapsed \<ge> 30
         then (traced (Log INFO ''Stats'') s1)\<lparr>last_stats_time := current_time\<rparr>
         else s1)"

subsection \<open>The main loop\<close>

text \<open>
  Lines 522 to 526 of \<open>run\<close>, for the aircraft at \<open>i\<close>: the two interval look-ups, then
  \<open>random.random() < 1.0 / random.uniform(min_interval, max_interval)\<close>, evaluated
  left to right.
\<close>

definition emission_test :: "nat \<Rightarrow> 'p simulator \<Rightarrow> (exn + bool) \<times> 'p simulator" where
  "emission_test i s =
     (case config_get (config s) ''simulation'' ''message_interval_min'' of
        Inl e \<Rightarrow> (Inl e, s)
      | Inr min_interval \<Rightarrow>
     (case config_get (config s) ''simulation'' ''message_interval_max'' of
        Inl e \<Rightarrow> (Inl e, s)
      | Inr max_interval \<Rightarrow>
     (let s1 = traced (EmissionTest i) s;
          (u, r1) = random_random (rng s1);
          s2 = s1\<lparr>rng := r1\<rparr>
      in case as_number min_interval of
        Inl e \<Rightarrow> (Inl e, s2)
      | Inr a \<Rightarrow>
     (case as_number max_interval of
        Inl e \<Rightarrow> (Inl e, s2)
      | Inr b \<Rightarrow>
          let (v, r2) = random_uniform a b (rng s2);
              s3 = s2\<lparr>rng := r2\<rparr>
          in if v = 0 then (Inl ZeroDivisionError, s3) else (Inr (u < 1 / v), s3)))))"

text \<open>The body of the loop over \<open>self.aircraft\<close> in \<open>run\<close> (lines 518 to 528).\<close>

definition advance_and_emit ::
  "'p world \<Rightarrow> real \<Rightarrow> nat \<Rightarrow> 'p simulator \<Rightarrow> exn option \<times> 'p simulator" where
  "advance_and_emit w delta_time i s =
     (let s1 = traced (Advance i) s
      in case update_position (geo w) delta_time (aircraft s1 ! i) (rng s1) of
           Inl e \<Rightarrow> (Some e, s1)
         | Inr (a, r) \<Rightarrow>
             (case emission_test i (s1\<lparr>aircraft := (aircraft s1)[i := a], rng := r\<rparr>) of
                (Inl e, s2) \<Rightarrow> (Some e, s2)
              | (Inr False, s2) \<Rightarrow> (None, s2)
              | (Inr True, s2) \<Rightarrow>
                  let (now, s3) = time_time s2;
                      message = generate_message (isoformat w now) (aircraft s3 ! i)
                  in publish_message w message (traced (Publish i) s3)))"

definition pump :: "'p world \<Rightarrow> 'p simulator \<Rightarrow> exn option \<times> 'p simulator" where
  "pump w s =
     (case active_producer w s of
        None \<Rightarrow> (None, s)
      | Some p \<Rightarrow>
          (case poll w p of
             Inl e \<Rightarrow> (Some e, traced Poll s)
           | Inr p' \<Rightarrow> (None, (traced Poll s)\<lparr>kafka_producer := Some p'\<rparr>)))"

text \<open>
  One pass of the \<open>while\<close> loop of \<open>run\<close> (lines 513 to 544). \<open>last_update_time\<close> is the
  local variable of \<open>run\<close>; the pass returns its new value.
\<close>

definition tick ::
  "'p world \<Rightarrow> real \<Rightarrow> 'p simulator \<Rightarrow> exn option \<times> real \<times> 'p simulator" where
  "tick w last_update_time s =
     (let (current_time, s1) = time_time s;
          delta_time = current_time - last_update_time
      in case for_each (advance_and_emit w delta_time) [0..<length (aircraft s1)] s1 of
           (Some e, s2) \<Rightarrow> (Some e, current_time, s2)
         | (None, s2) \<Rightarrow>
             let (n, s3) = check_separation_conflicts w (traced SeparationScan s2)
             in (case trigger_random_emergencies w (traced EmergencySampling s3) of
                   (Some e, s4) \<Rightarrow> (Some e, current_time, s4)
                 | (None, s4) \<Rightarrow>
                     (case pump w s4 of
                        (Some e, s5) \<Rightarrow> (Some e, current_time, s5)
                      | (None, s5) \<Rightarrow>
                          (None, current_time,
                           traced Sleep (log_statistics (traced Statistics s5))))))"

text \<open>
  \<open>while self.running\<close>, for at most \<open>fuel\<close> passes: \<open>None\<close> when the loop is still
  running after them, otherwise the exception that left the loop, if any, and the state.
\<close>

fun tick_loop ::
  "'p world \<Rightarrow> nat \<Rightarrow> real \<Rightarrow> 'p simulator \<Rightarrow> (exn option \<times> 'p simulator) option" where
  "tick_loop w 0 last_update_time s = (if running s then None else Some (None, s))"
| "tick_loop w (Suc fuel) last_update_time s =
     (if running s then
        (case tick w last_update_time s of
           (Some e, t, s') \<Rightarrow> Some (Some e, s')
         | (None, t, s') \<Rightarrow> tick_loop w fuel t s')
      else Some (None, s))"

definition stop :: "'p world \<Rightarrow> 'p simulator \<Rightarrow> exn option \<times> 'p simulator" where
  "stop w s =
     (let s1 = s\<lparr>running := False\<rparr>;
          finish = (\<lambda>s'. traced (Log INFO ''Simulation stopped'') (snd (time_time s')))
      in case active_producer w s1 of
           None \<Rightarrow> (None, finish s1)
         | Some p \<Rightarrow>
             (let s2 = traced Flush (traced (Log INFO ''Flushing remaining messages'') s1)
              in case flush w p of
                   Inl e \<Rightarrow> (Some e, s2)
                 | Inr p' \<Rightarrow> (None, finish (s2\<lparr>kafka_producer := Some p'\<rparr>))))"

text \<open>
  \<open>run\<close>. \<open>run_loop\<close> is what its \<open>try\<close> block does, from the first line of \<open>run\<close> on: the
  outcome of the loop. \<open>run\<close> adds the two handlers and \<open>stop\<close> in the \<open>finally\<close> clause.
  An exception the handlers do not catch is raised again after \<open>stop\<close>; an exception
  raised by \<open>stop\<close> itself leaves \<open>run\<close>.
\<close>

definition run_loop ::
  "'p world \<Rightarrow> nat \<Rightarrow> 'p simulator \<Rightarrow> (exn option \<times> 'p simulator) option" where
  "run_loop w fuel s =
     (let s1 = traced (Log INFO ''Starting ADS-B simulation'') (s\<lparr>running := True\<rparr>);
          (last_update_time, s2) = time_time s1
      in tick_loop w fuel last_update_time s2)"

definition run :: "'p world \<Rightarrow> nat \<Rightarrow> 'p simulator \<Rightarrow> (exn option \<times> 'p simulator) option" where
  "run w fuel s =
     (case run_loop w fuel s of
           None \<Rightarrow> None
         | Some (None, s3) \<Rightarrow> Some (stop w s3)
         | Some (Some e, s3) \<Rightarrow>
             if e = KeyboardInterrupt
             then Some (stop w (traced (Log INFO ''Simulation interrupted by user'') s3))
             else if is_Exception e
             then Some (stop w (traced (Log ERROR ''Simulation error'') s3))
             else (case stop w s3 of
                     (Some e', s4) \<Rightarrow> Some (Some e', s4)
                   | (None, s4) \<Rightarrow> Some (Some e, s4)))"

text \<open>
  \<open>main\<close>, after argument parsing: how the process ends and the trace it leaves.
  \<open>sys.exit(1)\<close> in the handler and a \<open>SystemExit\<close> reaching the top give that exit
  code; returning from \<open>main\<close> gives 0. The handler's record follows whatever the
  constructor or \<open>run\<close> had logged before raising.
\<close>

datatype exit_status = Exit int | Interrupted

definition main ::
  "'p world \<Rightarrow> string \<Rightarrow> nat \<Rightarrow> rng \<Rightarrow> (nat \<Rightarrow> real) \<Rightarrow> (exit_status \<times> event list) option" where
  "main w config_path fuel rng0 clock0 =
     (let failed = (\<lambda>e tr.
            if is_Exception e then (Exit 1, tr @ [Log ERROR ''Failed to start simulator''])
            else (case e of SystemExit c \<Rightarrow> (Exit c, tr) | _ \<Rightarrow> (Interrupted, tr)))
      in case ADSBSimulator_init w config_path rng0 clock0 of
           Inl (e, tr) \<Rightarrow> Some (failed e tr)
         | Inr simulator \<Rightarrow>
             (case run w fuel simulator of
                None \<Rightarrow> None
              | Some (None, s) \<Rightarrow> Some (Exit 0, trace s)
              | Some (Some e, s) \<Rightarrow> Some (failed e (trace s))))"

text \<open>
  The enqueue of a report succeeds when \<open>_publish_message\<close> reaches the \<open>produce\<close>
  call and the call returns.
\<close>

definition enqueue_succeeds :: "'p world \<Rightarrow> adsb_message \<Rightarrow> 'p simulator \<Rightarrow> bool" where
  "enqueue_succeeds w message s =
     (case active_producer w s of
        None \<Rightarrow> False
      | Some p \<Rightarrow>
          (case config_get (config s) ''kafka'' ''topic'' of
             Inl e \<Rightarrow> False
           | Inr topic \<Rightarrow>
               (case produce w p topic (msg_icao_address message) (to_json w message) of
                  Inl e \<Rightarrow> False
                | Inr p' \<Rightarrow> True)))"

subsection \<open>What a pass keeps\<close>

text \<open>
  Between two fleets: same size, and every aircraft in emergency in the first is in
  emergency with the same squawk in the second. Between two simulator states: the
  same configuration, emergencies kept, and an absent producer still absent.
\<close>

definition emergencies_kept :: "aircraft list \<Rightarrow> aircraft list \<Rightarrow> bool" where
  "emergencies_kept fl fl' =
     (length fl' = length fl
      \<and> (\<forall>i < length fl. emergency_state (fl ! i) \<longrightarrow>
            emergency_state (fl' ! i) \<and> squawk (fl' ! i) = squawk (fl ! i)))"

definition pass_frame :: "'p simulator \<Rightarrow> 'p simulator \<Rightarrow> bool" where
  "pass_frame s s' =
     (config s' = config s \<and> emergencies_kept (aircraft s) (aircraft s')
      \<and> (kafka_producer s = None \<longrightarrow> kafka_producer s' = None))"

subsection \<open>The order of a pass\<close>

text \<open>The calls of a trace: everything but the log records.\<close>

fun is_call :: "event \<Rightarrow> bool" where
  "is_call (Log l m) = False"
| "is_call ev = True"

definition calls :: "event list \<Rightarrow> event list" where
  "calls tr = filter is_call tr"



section \<open>Concrete inputs\<close>

text \<open>
  A geodesy on a flat grid (111 km and 60 nm per degree, every course due north) and
  a jet standing on its only waypoint, for the instances below.
\<close>

definition flat_geodesy :: geodesy where
  "flat_geodesy =
     \<lparr>kilometers = (\<lambda>p q. 111 * (\<bar>fst p - fst q\<bar> + \<bar>snd p - snd q\<bar>)),
      nautical = (\<lambda>p q. 60 * (\<bar>fst p - fst q\<bar> + \<bar>snd p - snd q\<bar>)),
      destination = (\<lambda>d p b. (fst p + d / 111, snd p))\<rparr>"

definition sample_jet :: aircraft where
  "sample_jet =
     \<lparr>icao_address = ''ABC123'', aircraft_type = ''jet'', callsign = ''UAL1000'',
      latitude = 0, longitude = 0, altitude = 35000, ground_speed = 450,
      max_speed = 600, min_speed = 200, climb_rate = 2000, heading = 90,
      target_altitude = 35000, target_speed = 450, target_heading = 90,
      waypoints = [\<lparr>wp_latitude = 0, wp_longitude = 0, wp_name = ''WPT1''\<rparr>],
      current_waypoint_index = 0,
      emergency_state = False, conflict_state = False, squawk = ''1200'',
      last_update = 0\<rparr>"

text \<open>
  A parsed configuration for an empty fleet that lacks the interval and frequency
  keys, one that lacks \<open>num_aircraft\<close>, a second jet 0.01 degrees east of the first
  and squawking 7500, a bus whose queue holds two messages, and a simulator with the
  default configuration, both jets and a full producer.
\<close>



definition sample_config :: yaml where
  "sample_config =
     YDict [(''simulation'', YDict [(''num_aircraft'', YInt 0)]),
            (''kafka'',
              YDict [(''bootstrap_servers'', YStr ''localhost:9092''),
                     (''topic'', YStr ''adsb_messages'')]),
            (''aircraft_types'', YDict [(''jet_ratio'', YFloat 0.7)])]"

definition partial_config :: yaml where
  "partial_config =
     YDict [(''simulation'',
              YDict [(''message_interval_min'', YInt 1),
                     (''message_interval_max'', YInt 5),
                     (''emergency_frequency'', YFloat 0.001)]),
            (''kafka'',
              YDict [(''bootstrap_servers'', YStr ''localhost:9092''),
                     (''topic'', YStr ''adsb_messages'')]),
            (''aircraft_types'', YDict [(''jet_ratio'', YFloat 0.7)])]"

definition nearby_jet :: aircraft where
  "nearby_jet =
     sample_jet\<lparr>icao_address := ''DEF456'', longitude := 0.01,
                emergency_state := True, squawk := ''7500''\<rparr>"

definition sample_world :: "nat world" where
  "sample_world =
     \<lparr>geo = flat_geodesy,
      read_config = (\<lambda>path. if path = ''config.yaml'' then Inr sample_config
                           else if path = ''partial.yaml'' then Inr partial_config
                           else Inl OSError),
      new_producer = (\<lambda>servers. Inr 0),
      new_admin_client = (\<lambda>servers. None),
      create_topics = (\<lambda>servers topic. Inr AlreadyExists),
      produce = (\<lambda>p topic key val. if p < 2 then Inr (Suc p) else Inl BufferError),
      poll = (\<lambda>p. Inr 0),
      flush = (\<lambda>p. Inr 0),
      truthy = (\<lambda>p. True),
      to_json = msg_icao_address,
      isoformat = (\<lambda>t. ''2025-01-15T20:09:00+00:00'')\<rparr>"

definition sample_simulator :: "nat simulator" where
  "sample_simulator =
     \<lparr>config = default_config, aircraft = [sample_jet, nearby_jet], kafka_producer = Some 2,
      running = True, messages_sent = 7, start_time = 0, last_stats_time = 0,
      rng = (\<lambda>n. 0), clock = (\<lambda>n. 1), trace = []\<rparr>"

section \<open>Construction always raises\<close>

lemma random_randint_lower:
  "a \<le> b \<Longrightarrow> a \<le> fst (random_randint a b r)"
  by (simp add: random_randint_def random_random_def split_beta Let_def
      zero_le_mult_iff)

lemma flight_plan_loop_unbound:
  "is \<noteq> [] \<Longrightarrow> flight_plan_loop g is cur None r = Inl (AttributeError ''waypoints'')"
  by (cases "is") (simp_all add: split_beta Let_def)

lemma generate_flight_plan_unbound:
  "generate_flight_plan g pos None r = Inl (AttributeError ''waypoints'')"
proof -
  have "3 \<le> fst (random_randint 3 5 r)"
    by (rule random_randint_lower) simp
  then have "[0..<nat (fst (random_randint 3 5 r))] \<noteq> []"
    by simp
  then show ?thesis
    by (simp add: generate_flight_plan_def split_beta Let_def flight_plan_loop_unbound)
qed

lemma initialize_flight_parameters_unbound:
  "initialize_flight_parameters g ty None r = Inl (AttributeError ''waypoints'')"
  by (simp add: initialize_flight_parameters_def split_beta Let_def
      generate_flight_plan_unbound)

text \<open>
  C1. Constructing \<open>Aircraft(icao, category)\<close> does not succeed: for every ICAO string,
  every category and every generator state the constructor raises \<open>AttributeError\<close>,
  because the flight plan is generated before \<open>self.waypoints\<close> is bound.
\<close>

theorem Aircraft_init_raises:
  "Aircraft_init g now icao ty r = Inl (AttributeError ''waypoints'')"
proof -
  let ?r2 = "snd (random_randint 1000 9999 (snd (random_choice airlines r)))"
  have "initialize_flight_parameters g ty None ?r2 = Inl (AttributeError ''waypoints'')"
    by (rule initialize_flight_parameters_unbound)
  then show ?thesis
    by (simp add: Aircraft_init_def split_beta Let_def)
qed

section \<open>Advancing an aircraft\<close>









lemma random_random_range: "0 \<le> fst (random_random r) \<and> fst (random_random r) < 1"
  by (simp add: random_random_def frac_lt_1)

lemma random_randint_upper:
  "a \<le> b \<Longrightarrow> fst (random_randint a b r) \<le> b"
proof -
  assume ab: "a \<le> b"
  let ?u = "fst (random_random r)"
  have "?u * of_int (b - a + 1) < of_int (b - a + 1)"
    using random_random_range[of r] ab by simp
  then have "\<lfloor>?u * of_int (b - a + 1)\<rfloor> < b - a + 1"
    by (simp only: floor_less_iff)
  then show ?thesis
    by (simp add: random_randint_def split_beta Let_def)
qed

lemma flight_plan_loop_bound:
  "\<exists>ws' r'. flight_plan_loop g is cur (Some ws) r = Inr (Some ws', r')
      \<and> length ws' = length ws + length is"
proof (induction "is" arbitrary: cur ws r)
  case Nil
  show ?case by simp
next
  case (Cons i "is")
  let ?r1 = "snd (random_uniform 185 555 r)"
  let ?r2 = "snd (random_uniform 0 360 ?r1)"
  let ?dest = "destination g (fst (random_uniform 185 555 r)) cur (fst (random_uniform 0 360 ?r1))"
  let ?wp = "\<lparr>wp_latitude = fst ?dest, wp_longitude = snd ?dest,
               wp_name = ''WPT'' @ str_of_nat (i + 1)\<rparr>"
  from Cons.IH[of ?dest "ws @ [?wp]" ?r2] obtain ws' r' where
    "flight_plan_loop g is ?dest (Some (ws @ [?wp])) ?r2 = Inr (Some ws', r')"
    "length ws' = length (ws @ [?wp]) + length is"
    by blast
  then show ?case
    by (simp add: split_beta Let_def)
qed

lemma generate_flight_plan_bound:
  "\<exists>ws r'. generate_flight_plan g pos (Some []) r = Inr (Some ws, r')
      \<and> 3 \<le> length ws \<and> length ws \<le> 5"
proof -
  let ?n = "fst (random_randint 3 5 r)"
  have lo: "3 \<le> ?n" by (rule random_randint_lower) simp
  have hi: "?n \<le> 5" by (rule random_randint_upper) simp
  obtain ws r' where
    "flight_plan_loop g [0..<nat ?n] pos (Some []) (snd (random_randint 3 5 r)) = Inr (Some ws, r')"
    "length ws = length ([]::waypoint list) + length [0..<nat ?n]"
    using flight_plan_loop_bound by blast
  with lo hi show ?thesis
    by (auto simp: generate_flight_plan_def split_beta Let_def)
qed


text \<open>
  Had the list been bound first, the parameters drawn for a jet would be the ones the
  data model gives, with a plan of 3 to 5 waypoints; and the limits are the category's.
\<close>

lemma initialize_flight_parameters_bound:
  "\<exists>fp r' ws. initialize_flight_parameters g ''jet'' (Some []) r = Inr (fp, r')
     \<and> 25000 \<le> fp_altitude fp \<and> fp_altitude fp \<le> 42000
     \<and> 400 \<le> fp_ground_speed fp \<and> fp_ground_speed fp \<le> 550
     \<and> fp_waypoints fp = Some ws \<and> 3 \<le> length ws \<and> length ws \<le> 5"
proof -
  let ?r2 = "snd (random_uniform (- 180) 180 (snd (random_uniform (- 60) 60 r)))"
  let ?r3 = "snd (random_randint 25000 42000 ?r2)"
  have a: "25000 \<le> fst (random_randint 25000 42000 ?r2)"
    "fst (random_randint 25000 42000 ?r2) \<le> 42000"
    by (rule random_randint_lower, simp, rule random_randint_upper, simp)
  have v: "400 \<le> fst (random_randint 400 550 ?r3)" "fst (random_randint 400 550 ?r3) \<le> 550"
    by (rule random_randint_lower, simp, rule random_randint_upper, simp)
  let ?r6 = "snd (random_randint 0 359 (snd (random_uniform 1500 3000
                (snd (random_randint 400 550 ?r3)))))"
  let ?pos = "(fst (random_uniform (- 60) 60 r),
               fst (random_uniform (- 180) 180 (snd (random_uniform (- 60) 60 r))))"
  obtain ws r7 where gen: "generate_flight_plan g ?pos (Some []) ?r6 = Inr (Some ws, r7)"
    "3 \<le> length ws" "length ws \<le> 5"
    using generate_flight_plan_bound by blast
  with a v show ?thesis
    by (simp add: initialize_flight_parameters_def split_beta Let_def)
qed

lemma initialize_flight_parameters_envelope:
  "initialize_flight_parameters g ty wps r = Inr (fp, r') \<Longrightarrow>
   (fp_min_speed fp, fp_max_speed fp) = speed_envelope ty"
  by (auto simp: initialize_flight_parameters_def speed_envelope_def split_beta Let_def
      split: sum.splits)

lemma track_waypoint_result:
  "\<exists>a1 r1. track_waypoint g a r = Inr (a1, r1)
     \<and> heading a1 = heading a \<and> altitude a1 = altitude a \<and> ground_speed a1 = ground_speed a
     \<and> min_speed a1 = min_speed a \<and> max_speed a1 = max_speed a
     \<and> aircraft_type a1 = aircraft_type a
     \<and> emergency_state a1 = emergency_state a \<and> squawk a1 = squawk a
     \<and> conflict_state a1 = conflict_state a
     \<and> (waypoints a \<noteq> [] \<longrightarrow> waypoints a1 \<noteq> [])
     \<and> (current_waypoint_index a < length (waypoints a)
          \<longrightarrow> current_waypoint_index a1 < length (waypoints a1))"
proof -
  obtain ws r' where gen:
    "generate_flight_plan g (latitude a, longitude a) (Some []) r = Inr (Some ws, r')"
    "3 \<le> length ws" "length ws \<le> 5"
    using generate_flight_plan_bound by blast
  then have "ws \<noteq> []" by auto
  with gen show ?thesis
    by (auto simp: track_waypoint_def Let_def)
qed


lemma add_realistic_variations_frame:
  "waypoints (fst (add_realistic_variations a r)) = waypoints a"
  "current_waypoint_index (fst (add_realistic_variations a r)) = current_waypoint_index a"
  "min_speed (fst (add_realistic_variations a r)) = min_speed a"
  "max_speed (fst (add_realistic_variations a r)) = max_speed a"
  "aircraft_type (fst (add_realistic_variations a r)) = aircraft_type a"
  "emergency_state (fst (add_realistic_variations a r)) = emergency_state a"
  "squawk (fst (add_realistic_variations a r)) = squawk a"
  "conflict_state (fst (add_realistic_variations a r)) = conflict_state a"
  by (simp_all add: add_realistic_variations_def split_beta Let_def)


lemma step_frame:
  "waypoints (update_heading dt a) = waypoints a"
  "current_waypoint_index (update_heading dt a) = current_waypoint_index a"
  "min_speed (update_heading dt a) = min_speed a"
  "max_speed (update_heading dt a) = max_speed a"
  "aircraft_type (update_heading dt a) = aircraft_type a"
  "emergency_state (update_heading dt a) = emergency_state a"
  "squawk (update_heading dt a) = squawk a"
  "conflict_state (update_heading dt a) = conflict_state a"
  "waypoints (update_speed dt a) = waypoints a"
  "current_waypoint_index (update_speed dt a) = current_waypoint_index a"
  "min_speed (update_speed dt a) = min_speed a"
  "max_speed (update_speed dt a) = max_speed a"
  "aircraft_type (update_speed dt a) = aircraft_type a"
  "emergency_state (update_speed dt a) = emergency_state a"
  "squawk (update_speed dt a) = squawk a"
  "conflict_state (update_speed dt a) = conflict_state a"
  "waypoints (update_altitude dt a) = waypoints a"
  "current_waypoint_index (update_altitude dt a) = current_waypoint_index a"
  "min_speed (update_altitude dt a) = min_speed a"
  "max_speed (update_altitude dt a) = max_speed a"
  "aircraft_type (update_altitude dt a) = aircraft_type a"
  "emergency_state (update_altitude dt a) = emergency_state a"
  "squawk (update_altitude dt a) = squawk a"
  "conflict_state (update_altitude dt a) = conflict_state a"
  "waypoints (translate g dt a) = waypoints a"
  "current_waypoint_index (translate g dt a) = current_waypoint_index a"
  "min_speed (translate g dt a) = min_speed a"
  "max_speed (translate g dt a) = max_speed a"
  "aircraft_type (translate g dt a) = aircraft_type a"
  "emergency_state (translate g dt a) = emergency_state a"
  "squawk (translate g dt a) = squawk a"
  "conflict_state (translate g dt a) = conflict_state a"
  by (simp_all add: update_heading_def update_speed_def update_altitude_def translate_def Let_def)

lemma update_position_moving:
  assumes "waypoints a \<noteq> []"
  shows "\<exists>a1 r1. track_waypoint g a r = Inr (a1, r1)
     \<and> update_position g dt a r =
         Inr (add_realistic_variations
               (translate g dt (update_altitude dt (update_speed dt (update_heading dt a1)))) r1)"
  using assms track_waypoint_result[of g a r]
  by (auto simp: update_position_def Let_def)

lemma update_position_total: "\<exists>a' r'. update_position g dt a r = Inr (a', r')"
proof (cases "waypoints a = []")
  case True
  then show ?thesis by (simp add: update_position_def)
next
  case False
  from update_position_moving[OF False, of g r dt] show ?thesis
    by (metis surj_pair)
qed

lemma update_position_frame:
  assumes "update_position g dt a r = Inr (a', r')"
  shows "min_speed a' = min_speed a" "max_speed a' = max_speed a"
    "aircraft_type a' = aircraft_type a"
    "emergency_state a' = emergency_state a" "squawk a' = squawk a"
    "conflict_state a' = conflict_state a"
    "waypoints a \<noteq> [] \<Longrightarrow> waypoints a' \<noteq> []"
proof -
  have "min_speed a' = min_speed a \<and> max_speed a' = max_speed a
    \<and> aircraft_type a' = aircraft_type a
    \<and> emergency_state a' = emergency_state a \<and> squawk a' = squawk a
    \<and> conflict_state a' = conflict_state a
    \<and> (waypoints a \<noteq> [] \<longrightarrow> waypoints a' \<noteq> [])"
  proof (cases "waypoints a = []")
    case True
    with assms show ?thesis by (simp add: update_position_def)
  next
    case False
    from update_position_moving[OF False, of g r dt] obtain a1 r1 where
      t: "track_waypoint g a r = Inr (a1, r1)" and
      u: "update_position g dt a r =
         Inr (add_realistic_variations
               (translate g dt (update_altitude dt (update_speed dt (update_heading dt a1)))) r1)"
      by blast
    from u assms have a': "a' = fst (add_realistic_variations
               (translate g dt (update_altitude dt (update_speed dt (update_heading dt a1)))) r1)"
      by (metis Inr_inject fst_conv)
    from track_waypoint_result[of g a r] t show ?thesis
      by (simp add: a' add_realistic_variations_frame step_frame)
  qed
  then show "min_speed a' = min_speed a" "max_speed a' = max_speed a"
    "aircraft_type a' = aircraft_type a"
    "emergency_state a' = emergency_state a" "squawk a' = squawk a"
    "conflict_state a' = conflict_state a"
    "waypoints a \<noteq> [] \<Longrightarrow> waypoints a' \<noteq> []"
    by simp_all
qed


lemma update_position_index:
  assumes "update_position g dt a r = Inr (a', r')"
    "current_waypoint_index a < length (waypoints a)"
  shows "current_waypoint_index a' < length (waypoints a')"
proof -
  from assms(2) have ne: "waypoints a \<noteq> []" by auto
  from update_position_moving[OF ne, of g r dt] obtain a1 r1 where
    t: "track_waypoint g a r = Inr (a1, r1)" and
    u: "update_position g dt a r =
       Inr (add_realistic_variations
             (translate g dt (update_altitude dt (update_speed dt (update_heading dt a1)))) r1)"
    by blast
  from u assms have a': "a' = fst (add_realistic_variations
             (translate g dt (update_altitude dt (update_speed dt (update_heading dt a1)))) r1)"
    by (metis Inr_inject fst_conv)
  from track_waypoint_result[of g a r] t assms(2) show ?thesis
    by (simp add: a' add_realistic_variations_frame step_frame)
qed



lemma flight_plan_loop_chain:
  "\<exists>new. flight_plan_loop g is cur (Some ws) r
        = Inr (Some (ws @ new), \<lambda>m. r (m + 2 * length is))
     \<and> length new = length is
     \<and> (\<forall>k<length is. new ! k =
           (let dest = destination g (185 + 370 * frac (r (2 * k)))
                         (if k = 0 then cur
                          else (wp_latitude (new ! (k - 1)), wp_longitude (new ! (k - 1))))
                         (360 * frac (r (2 * k + 1)))
            in \<lparr>wp_latitude = fst dest, wp_longitude = snd dest,
                 wp_name = ''WPT'' @ str_of_nat (is ! k + 1)\<rparr>))"
proof (induction "is" arbitrary: cur ws r)
  case Nil
  show ?case by simp
next
  case (Cons i "is")
  define dest where "dest = destination g (185 + 370 * frac (r 0)) cur (360 * frac (r 1))"
  define wp where "wp = \<lparr>wp_latitude = fst dest, wp_longitude = snd dest,
               wp_name = ''WPT'' @ str_of_nat (i + 1)\<rparr>"
  define r2 where "r2 = (\<lambda>m. r (m + 2))"
  have step: "flight_plan_loop g (i # is) cur (Some ws) r
      = flight_plan_loop g is dest (Some (ws @ [wp])) r2"
    by (simp add: random_uniform_def random_random_def split_beta Let_def dest_def wp_def
        r2_def numeral_2_eq_2)
  from Cons.IH[of dest "ws @ [wp]" r2] obtain new where
    run: "flight_plan_loop g is dest (Some (ws @ [wp])) r2
        = Inr (Some ((ws @ [wp]) @ new), \<lambda>m. r2 (m + 2 * length is))" and
    len: "length new = length is" and
    el: "\<forall>k<length is. new ! k =
           (let dest' = destination g (185 + 370 * frac (r2 (2 * k)))
                         (if k = 0 then dest
                          else (wp_latitude (new ! (k - 1)), wp_longitude (new ! (k - 1))))
                         (360 * frac (r2 (2 * k + 1)))
            in \<lparr>wp_latitude = fst dest', wp_longitude = snd dest',
                 wp_name = ''WPT'' @ str_of_nat (is ! k + 1)\<rparr>)"
    by blast
  have rng: "(\<lambda>m. r2 (m + 2 * length is)) = (\<lambda>m. r (m + 2 * length (i # is)))"
    by (simp add: r2_def add.assoc)
  have a: "flight_plan_loop g (i # is) cur (Some ws) r
      = Inr (Some (ws @ (wp # new)), \<lambda>m. r (m + 2 * length (i # is)))"
    unfolding step run rng by simp
  have b: "length (wp # new) = length (i # is)"
    using len by simp
  have c: "(wp # new) ! k =
           (let d = destination g (185 + 370 * frac (r (2 * k)))
                         (if k = 0 then cur
                          else (wp_latitude ((wp # new) ! (k - 1)),
                                wp_longitude ((wp # new) ! (k - 1))))
                         (360 * frac (r (2 * k + 1)))
            in \<lparr>wp_latitude = fst d, wp_longitude = snd d,
                 wp_name = ''WPT'' @ str_of_nat ((i # is) ! k + 1)\<rparr>)"
    if k: "k < length (i # is)" for k
  proof (cases k)
    case 0
    then show ?thesis by (simp add: wp_def dest_def Let_def)
  next
    case (Suc j)
    with k have j: "j < length is" by simp
    from el j have e: "new ! j =
           (let dest' = destination g (185 + 370 * frac (r2 (2 * j)))
                         (if j = 0 then dest
                          else (wp_latitude (new ! (j - 1)), wp_longitude (new ! (j - 1))))
                         (360 * frac (r2 (2 * j + 1)))
            in \<lparr>wp_latitude = fst dest', wp_longitude = snd dest',
                 wp_name = ''WPT'' @ str_of_nat (is ! j + 1)\<rparr>)"
      by blast
    have prev: "(if j = 0 then dest
                 else (wp_latitude (new ! (j - 1)), wp_longitude (new ! (j - 1))))
        = (wp_latitude ((wp # new) ! j), wp_longitude ((wp # new) ! j))"
      by (cases j) (simp_all add: wp_def)
    have r: "r2 (2 * j) = r (2 * Suc j)" "r2 (2 * j + 1) = r (2 * Suc j + 1)"
      by (simp_all add: r2_def)
    show ?thesis
      unfolding Suc using e unfolding prev r by (simp add: Let_def)
  qed
  from a b c show ?case by blast
qed

lemma generate_flight_plan_chain:
  "\<exists>ws r'. generate_flight_plan g pos (Some []) r = Inr (Some ws, r')
     \<and> length ws = nat (3 + \<lfloor>frac (r 0) * 3\<rfloor>)
     \<and> (\<forall>k<length ws. ws ! k =
           (let dest = destination g (185 + 370 * frac (r (2 * k + 1)))
                         (if k = 0 then pos
                          else (wp_latitude (ws ! (k - 1)), wp_longitude (ws ! (k - 1))))
                         (360 * frac (r (2 * k + 2)))
            in \<lparr>wp_latitude = fst dest, wp_longitude = snd dest,
                 wp_name = ''WPT'' @ str_of_nat (k + 1)\<rparr>))"
proof -
  define n where "n = nat (3 + \<lfloor>frac (r 0) * 3\<rfloor>)"
  define r1 where "r1 = (\<lambda>m. r (Suc m))"
  have g: "generate_flight_plan g pos (Some []) r = flight_plan_loop g [0..<n] pos (Some []) r1"
    by (simp add: generate_flight_plan_def random_randint_def random_random_def split_beta
        Let_def n_def r1_def)
  from flight_plan_loop_chain[of g "[0..<n]" pos "[]" r1] obtain new where
    run: "flight_plan_loop g [0..<n] pos (Some []) r1
        = Inr (Some ([] @ new), \<lambda>m. r1 (m + 2 * length [0..<n]))" and
    len: "length new = length [0..<n]" and
    el: "\<forall>k<length [0..<n]. new ! k =
           (let dest = destination g (185 + 370 * frac (r1 (2 * k)))
                         (if k = 0 then pos
                          else (wp_latitude (new ! (k - 1)), wp_longitude (new ! (k - 1))))
                         (360 * frac (r1 (2 * k + 1)))
            in \<lparr>wp_latitude = fst dest, wp_longitude = snd dest,
                 wp_name = ''WPT'' @ str_of_nat ([0..<n] ! k + 1)\<rparr>)"
    by blast
  have "generate_flight_plan g pos (Some []) r = Inr (Some new, \<lambda>m. r1 (m + 2 * length [0..<n]))"
    unfolding g run by simp
  moreover have "length new = nat (3 + \<lfloor>frac (r 0) * 3\<rfloor>)"
    using len by (simp add: n_def)
  moreover have "\<forall>k<length new. new ! k =
           (let dest = destination g (185 + 370 * frac (r (2 * k + 1)))
                         (if k = 0 then pos
                          else (wp_latitude (new ! (k - 1)), wp_longitude (new ! (k - 1))))
                         (360 * frac (r (2 * k + 2)))
            in \<lparr>wp_latitude = fst dest, wp_longitude = snd dest,
                 wp_name = ''WPT'' @ str_of_nat (k + 1)\<rparr>)"
    using el len by (simp add: r1_def Let_def)
  ultimately show ?thesis by blast
qed


lemma update_position_regenerates:
  assumes "current_waypoint_index a < length (waypoints a)"
    "kilometers g (latitude a, longitude a)
       (wp_latitude (waypoints a ! current_waypoint_index a),
        wp_longitude (waypoints a ! current_waypoint_index a)) < 5"
    "length (waypoints a) \<le> current_waypoint_index a + 1"
    "update_position g dt a r = Inr (a', r')"
  shows "current_waypoint_index a' = 0 \<and> 3 \<le> length (waypoints a') \<and> length (waypoints a') \<le> 5
     \<and> length (waypoints a') = nat (3 + \<lfloor>frac (r 0) * 3\<rfloor>)
     \<and> (\<forall>k<length (waypoints a'). waypoints a' ! k =
           (let dest = destination g (185 + 370 * frac (r (2 * k + 1)))
                         (if k = 0 then (latitude a, longitude a)
                          else (wp_latitude (waypoints a' ! (k - 1)),
                                wp_longitude (waypoints a' ! (k - 1))))
                         (360 * frac (r (2 * k + 2)))
            in \<lparr>wp_latitude = fst dest, wp_longitude = snd dest,
                 wp_name = ''WPT'' @ str_of_nat (k + 1)\<rparr>))"
proof -
  from assms(1) have ne: "waypoints a \<noteq> []" by auto
  from update_position_moving[OF ne, of g r dt] obtain a1 r1 where
    t: "track_waypoint g a r = Inr (a1, r1)" and
    u: "update_position g dt a r =
       Inr (add_realistic_variations
             (translate g dt (update_altitude dt (update_speed dt (update_heading dt a1)))) r1)"
    by blast
  from u assms(4) have a': "a' = fst (add_realistic_variations
             (translate g dt (update_altitude dt (update_speed dt (update_heading dt a1)))) r1)"
    by (metis Inr_inject fst_conv)
  obtain ws r2 where gen:
    "generate_flight_plan g (latitude a, longitude a) (Some []) r = Inr (Some ws, r2)" and
    len: "length ws = nat (3 + \<lfloor>frac (r 0) * 3\<rfloor>)" and
    el: "\<forall>k<length ws. ws ! k =
           (let dest = destination g (185 + 370 * frac (r (2 * k + 1)))
                         (if k = 0 then (latitude a, longitude a)
                          else (wp_latitude (ws ! (k - 1)), wp_longitude (ws ! (k - 1))))
                         (360 * frac (r (2 * k + 2)))
            in \<lparr>wp_latitude = fst dest, wp_longitude = snd dest,
                 wp_name = ''WPT'' @ str_of_nat (k + 1)\<rparr>)"
    using generate_flight_plan_chain by blast
  from generate_flight_plan_bound[of g "(latitude a, longitude a)" r] gen
  have bd: "3 \<le> length ws" "length ws \<le> 5" by auto
  from t assms(1-3) gen have a1: "current_waypoint_index a1 = 0 \<and> waypoints a1 = ws"
    by (auto simp: track_waypoint_def Let_def)
  have w: "waypoints a' = ws" "current_waypoint_index a' = 0"
    using a1 by (simp_all add: a' add_realistic_variations_frame step_frame)
  from bd len el show ?thesis unfolding w by blast
qed

lemma update_position_keeps_plan:
  assumes "current_waypoint_index a < length (waypoints a)"
    "\<not> (kilometers g (latitude a, longitude a)
       (wp_latitude (waypoints a ! current_waypoint_index a),
        wp_longitude (waypoints a ! current_waypoint_index a)) < 5
       \<and> length (waypoints a) \<le> current_waypoint_index a + 1)"
    "update_position g dt a r = Inr (a', r')"
  shows "waypoints a' = waypoints a
     \<and> current_waypoint_index a' =
         (if kilometers g (latitude a, longitude a)
               (wp_latitude (waypoints a ! current_waypoint_index a),
                wp_longitude (waypoints a ! current_waypoint_index a)) < 5
          then current_waypoint_index a + 1 else current_waypoint_index a)"
proof -
  from assms(1) have ne: "waypoints a \<noteq> []" by auto
  from update_position_moving[OF ne, of g r dt] obtain a1 r1 where
    t: "track_waypoint g a r = Inr (a1, r1)" and
    u: "update_position g dt a r =
       Inr (add_realistic_variations
             (translate g dt (update_altitude dt (update_speed dt (update_heading dt a1)))) r1)"
    by blast
  from u assms(3) have a': "a' = fst (add_realistic_variations
             (translate g dt (update_altitude dt (update_speed dt (update_heading dt a1)))) r1)"
    by (metis Inr_inject fst_conv)
  from t assms(1,2) have a1: "waypoints a1 = waypoints a
     \<and> current_waypoint_index a1 =
         (if kilometers g (latitude a, longitude a)
               (wp_latitude (waypoints a ! current_waypoint_index a),
                wp_longitude (waypoints a ! current_waypoint_index a)) < 5
          then current_waypoint_index a + 1 else current_waypoint_index a)"
    by (auto simp: track_waypoint_def Let_def split: if_splits)
  then show ?thesis
    by (simp add: a' add_realistic_variations_frame step_frame)
qed

text \<open>
  C3. For an aircraft with a non-empty flight plan whose index is in range, a call of
  \<open>update_position\<close> returns, for every \<open>delta_time\<close>, and leaves the index in range:
  \<open>0 \<le> current_waypoint_index < len(waypoints)\<close>. When the aircraft is within 5 km of
  its current waypoint and that waypoint is the last one, the call itself replaces the
  plan and leaves the index 0. The new plan holds none of the old waypoints. Its length
  is \<open>randint(3, 5)\<close>, taken from the first draw of the call. Waypoint \<open>k\<close> is the
  geodesic destination from the previous new waypoint, and for \<open>k = 0\<close> from the
  position the aircraft had when the call began, at the distance
  \<open>uniform(185, 555)\<close> and the bearing \<open>uniform(0, 360)\<close> of the next two draws; it is
  named \<open>WPT\<close> followed by \<open>k + 1\<close>. In every other case the plan is left as it was, and
  the index is one more when the aircraft is within 5 km of its current waypoint and
  unchanged otherwise.
\<close>

theorem update_position_keeps_index:
  assumes "waypoints a \<noteq> []" "current_waypoint_index a < length (waypoints a)"
  shows "\<exists>a' r'. update_position g dt a r = Inr (a', r')
     \<and> 0 \<le> current_waypoint_index a' \<and> current_waypoint_index a' < length (waypoints a')
     \<and> (if kilometers g (latitude a, longitude a)
             (wp_latitude (waypoints a ! current_waypoint_index a),
              wp_longitude (waypoints a ! current_waypoint_index a)) < 5
           \<and> length (waypoints a) \<le> current_waypoint_index a + 1
         then current_waypoint_index a' = 0
           \<and> 3 \<le> length (waypoints a') \<and> length (waypoints a') \<le> 5
           \<and> length (waypoints a') = nat (3 + \<lfloor>frac (r 0) * 3\<rfloor>)
           \<and> (\<forall>k<length (waypoints a'). waypoints a' ! k =
                (let dest = destination g (185 + 370 * frac (r (2 * k + 1)))
                              (if k = 0 then (latitude a, longitude a)
                               else (wp_latitude (waypoints a' ! (k - 1)),
                                     wp_longitude (waypoints a' ! (k - 1))))
                              (360 * frac (r (2 * k + 2)))
                 in \<lparr>wp_latitude = fst dest, wp_longitude = snd dest,
                      wp_name = ''WPT'' @ str_of_nat (k + 1)\<rparr>))
         else waypoints a' = waypoints a
           \<and> current_waypoint_index a' =
               (if kilometers g (latitude a, longitude a)
                     (wp_latitude (waypoints a ! current_waypoint_index a),
                      wp_longitude (waypoints a ! current_waypoint_index a)) < 5
                then current_waypoint_index a + 1 else current_waypoint_index a))"
proof -
  obtain a' r' where u: "update_position g dt a r = Inr (a', r')"
    using update_position_total by blast
  show ?thesis
  proof (cases "kilometers g (latitude a, longitude a)
             (wp_latitude (waypoints a ! current_waypoint_index a),
              wp_longitude (waypoints a ! current_waypoint_index a)) < 5
           \<and> length (waypoints a) \<le> current_waypoint_index a + 1")
    case True
    then have n: "kilometers g (latitude a, longitude a)
             (wp_latitude (waypoints a ! current_waypoint_index a),
              wp_longitude (waypoints a ! current_waypoint_index a)) < 5"
      and l: "length (waypoints a) \<le> current_waypoint_index a + 1"
      by simp_all
    from update_position_regenerates[OF assms(2) n l u] update_position_index[OF u assms(2)]
    show ?thesis
      unfolding if_P[OF True] u by (intro exI[of _ a'] exI[of _ r']) simp
  next
    case False
    from update_position_keeps_plan[OF assms(2) False u] update_position_index[OF u assms(2)]
    show ?thesis
      unfolding if_not_P[OF False] u by (intro exI[of _ a'] exI[of _ r']) simp
  qed
qed

lemma str_of_nat_digits:
  "str_of_nat (Suc 0) = ''1''" "str_of_nat 2 = ''2''" "str_of_nat 3 = ''3''"
  "str_of_nat (Suc (Suc 0)) = ''2''"
  by (simp_all add: str_of_nat.simps)

theorem update_position_keeps_index_witness:
  "waypoints sample_jet \<noteq> []
   \<and> current_waypoint_index sample_jet < length (waypoints sample_jet)
   \<and> kilometers flat_geodesy (latitude sample_jet, longitude sample_jet)
           (wp_latitude (waypoints sample_jet ! current_waypoint_index sample_jet),
            wp_longitude (waypoints sample_jet ! current_waypoint_index sample_jet)) < 5
   \<and> length (waypoints sample_jet) \<le> current_waypoint_index sample_jet + 1
   \<and> (\<exists>a' r'. update_position flat_geodesy 1 sample_jet (\<lambda>n. 0) = Inr (a', r')
        \<and> current_waypoint_index a' = 0
        \<and> waypoints a' =
            [\<lparr>wp_latitude = 185 / 111, wp_longitude = 0, wp_name = ''WPT1''\<rparr>,
             \<lparr>wp_latitude = 370 / 111, wp_longitude = 0, wp_name = ''WPT2''\<rparr>,
             \<lparr>wp_latitude = 5, wp_longitude = 0, wp_name = ''WPT3''\<rparr>])"
proof -
  have h1: "waypoints sample_jet \<noteq> []"
    by (simp add: sample_jet_def)
  have h2: "current_waypoint_index sample_jet < length (waypoints sample_jet)"
    by (simp add: sample_jet_def)
  have h3: "kilometers flat_geodesy (latitude sample_jet, longitude sample_jet)
           (wp_latitude (waypoints sample_jet ! current_waypoint_index sample_jet),
            wp_longitude (waypoints sample_jet ! current_waypoint_index sample_jet)) < 5"
    by (simp add: sample_jet_def flat_geodesy_def)
  have h4: "length (waypoints sample_jet) \<le> current_waypoint_index sample_jet + 1"
    by (simp add: sample_jet_def)
  from update_position_keeps_index[OF h1 h2, of flat_geodesy 1 "\<lambda>n. 0"] h3 h4
  obtain a' r' where u: "update_position flat_geodesy 1 sample_jet (\<lambda>n. 0) = Inr (a', r')"
    and i: "current_waypoint_index a' = 0"
    and len: "length (waypoints a') = 3"
    and el: "\<forall>k<length (waypoints a'). waypoints a' ! k =
                (let dest = destination flat_geodesy (185 + 370 * frac (0::real))
                              (if k = 0 then (latitude sample_jet, longitude sample_jet)
                               else (wp_latitude (waypoints a' ! (k - 1)),
                                     wp_longitude (waypoints a' ! (k - 1))))
                              (360 * frac (0::real))
                 in \<lparr>wp_latitude = fst dest, wp_longitude = snd dest,
                      wp_name = ''WPT'' @ str_of_nat (k + 1)\<rparr>)"
    by auto
  from el[rule_format, of 0] len have w0: "waypoints a' ! 0
      = \<lparr>wp_latitude = 185 / 111, wp_longitude = 0, wp_name = ''WPT1''\<rparr>"
    by (simp add: Let_def flat_geodesy_def sample_jet_def str_of_nat_digits)
  from el[rule_format, of 1] len w0 have w1: "waypoints a' ! 1
      = \<lparr>wp_latitude = 370 / 111, wp_longitude = 0, wp_name = ''WPT2''\<rparr>"
    by (simp add: Let_def flat_geodesy_def str_of_nat_digits)
  from el[rule_format, of 2] len w1 have w2: "waypoints a' ! 2
      = \<lparr>wp_latitude = 5, wp_longitude = 0, wp_name = ''WPT3''\<rparr>"
    by (simp add: Let_def flat_geodesy_def str_of_nat_digits)
  have "waypoints a' =
            [\<lparr>wp_latitude = 185 / 111, wp_longitude = 0, wp_name = ''WPT1''\<rparr>,
             \<lparr>wp_latitude = 370 / 111, wp_longitude = 0, wp_name = ''WPT2''\<rparr>,
             \<lparr>wp_latitude = 5, wp_longitude = 0, wp_name = ''WPT3''\<rparr>]"
  proof (rule nth_equalityI)
    show "length (waypoints a') = length
            [\<lparr>wp_latitude = 185 / 111, wp_longitude = 0, wp_name = ''WPT1''\<rparr>,
             \<lparr>wp_latitude = 370 / 111, wp_longitude = 0, wp_name = ''WPT2''\<rparr>,
             \<lparr>wp_latitude = 5, wp_longitude = 0, wp_name = ''WPT3''\<rparr>]"
      using len by simp
  next
    fix k assume "k < length (waypoints a')"
    with len have "k = 0 \<or> k = 1 \<or> k = 2" by auto
    then show "waypoints a' ! k =
            [\<lparr>wp_latitude = 185 / 111, wp_longitude = 0, wp_name = ''WPT1''\<rparr>,
             \<lparr>wp_latitude = 370 / 111, wp_longitude = 0, wp_name = ''WPT2''\<rparr>,
             \<lparr>wp_latitude = 5, wp_longitude = 0, wp_name = ''WPT3''\<rparr>] ! k"
      using w0 w1 w2 by auto
  qed
  with h1 h2 h3 h4 u i show ?thesis by blast
qed










lemma trigger_emergency_squawk: "squawk (trigger_emergency k a) \<noteq> ''1200''"
  by (simp add: trigger_emergency_def emergency_squawks_def)

lemma perform_squawk_consistent:
  assumes "squawk_consistent a"
  shows "\<exists>a' r'. perform g c a r = Inr (a', r') \<and> squawk_consistent a'"
proof (cases c)
  case (UpdatePosition dt)
  obtain a' r' where u: "update_position g dt a r = Inr (a', r')"
    using update_position_total by blast
  from update_position_frame(4,5)[OF u] assms u UpdatePosition show ?thesis
    by (simp add: squawk_consistent_def)
next
  case (TriggerEmergency k)
  have "emergency_state (trigger_emergency k a)"
    by (simp add: trigger_emergency_def)
  with trigger_emergency_squawk[of k a] TriggerEmergency show ?thesis
    by (simp add: squawk_consistent_def)
next
  case ClearEmergency
  then show ?thesis
    by (simp add: squawk_consistent_def clear_emergency_def)
next
  case (SetConflictState b)
  with assms show ?thesis
    by (simp add: squawk_consistent_def set_conflict_state_def)
qed

lemma perform_all_squawk_consistent:
  "squawk_consistent a \<Longrightarrow>
   \<exists>a' r'. perform_all g cs a r = Inr (a', r') \<and> squawk_consistent a'"
proof (induction cs arbitrary: a r)
  case Nil
  then show ?case by simp
next
  case (Cons c cs)
  from perform_squawk_consistent[OF Cons.prems, of g c r] obtain a1 r1 where
    p: "perform g c a r = Inr (a1, r1)" and s: "squawk_consistent a1"
    by blast
  from Cons.IH[OF s, of r1] p show ?case by simp
qed

text \<open>
  C5. From the state the last assignments of the constructor leave, and from any state
  in which the squawk is \<open>1200\<close> exactly when \<open>emergency_state\<close> is false, every
  sequence of \<open>update_position\<close>, \<open>trigger_emergency\<close> (with any string),
  \<open>clear_emergency\<close> and \<open>set_conflict_state\<close> calls returns, and in the state reached
  the squawk is \<open>1200\<close> exactly when \<open>emergency_state\<close> is false.
\<close>

theorem squawk_iff_no_emergency:
  assumes "a = init_tail icao ty cs0 fp now \<or> (squawk a = ''1200'') = (\<not> emergency_state a)"
  shows "\<exists>a' r'. perform_all g cs a r = Inr (a', r')
     \<and> ((squawk a' = ''1200'') = (\<not> emergency_state a'))"
proof -
  have "squawk_consistent (init_tail icao ty cs0 fp now)"
    by (simp add: squawk_consistent_def init_tail_def)
  with assms have "squawk_consistent a"
    by (auto simp: squawk_consistent_def)
  from perform_all_squawk_consistent[OF this, of g cs r] show ?thesis
    by (simp add: squawk_consistent_def)
qed

theorem squawk_iff_no_emergency_witness:
  "(squawk sample_jet = ''1200'') = (\<not> emergency_state sample_jet)
   \<and> (\<exists>a' r'. perform_all flat_geodesy
          [TriggerEmergency ''bogus'', UpdatePosition 1, SetConflictState True,
           ClearEmergency, TriggerEmergency ''hijack'']
          sample_jet (\<lambda>n. 0) = Inr (a', r')
        \<and> ((squawk a' = ''1200'') = (\<not> emergency_state a')))"
proof -
  have h: "(squawk sample_jet = ''1200'') = (\<not> emergency_state sample_jet)"
    by (simp add: sample_jet_def)
  from squawk_iff_no_emergency[OF disjI2[OF h]] h show ?thesis
    by blast
qed

section \<open>Separation scan\<close>

lemma set_conflict_pairs:
  "set (conflict_pairs g fl) =
     {(i, j). i < j \<and> j < length fl \<and> in_conflict g (fl ! i) (fl ! j)}"
proof -
  have "\<And>a b. a < b \<Longrightarrow> b < length fl \<Longrightarrow> in_conflict g (fl ! a) (fl ! b) \<Longrightarrow>
     \<exists>x\<in>{0..<length fl}. (a, b) \<in> Pair x `
        {xa. Suc x \<le> xa \<and> xa < length fl \<and> in_conflict g (fl ! x) (fl ! xa)}"
  proof -
    fix a b assume "a < b" "b < length fl" "in_conflict g (fl ! a) (fl ! b)"
    then show "\<exists>x\<in>{0..<length fl}. (a, b) \<in> Pair x `
        {xa. Suc x \<le> xa \<and> xa < length fl \<and> in_conflict g (fl ! x) (fl ! xa)}"
      by (intro bexI[of _ a]) auto
  qed
  then show ?thesis
    by (auto simp: conflict_pairs_def)
qed

lemma distinct_rows:
  "distinct is \<Longrightarrow> (\<And>i. distinct (f i)) \<Longrightarrow> distinct (concat (map (\<lambda>i. map (Pair i) (f i)) is))"
  by (induction "is") (auto simp: distinct_map inj_on_def)

lemma distinct_conflict_pairs: "distinct (conflict_pairs g fl)"
  unfolding conflict_pairs_def by (rule distinct_rows) simp_all

lemma length_conflict_pairs:
  "length (conflict_pairs g fl) =
     card {(i, j). i < j \<and> j < length fl \<and> in_conflict g (fl ! i) (fl ! j)}"
  using distinct_card[OF distinct_conflict_pairs, of g fl]
  by (simp add: set_conflict_pairs)

lemma flag_pair_nth:
  "i < length fl \<Longrightarrow> j < length fl \<Longrightarrow> k < length fl \<Longrightarrow>
   flag_pair fl (i, j) ! k =
     (if k = i \<or> k = j then (fl ! k)\<lparr>conflict_state := True\<rparr> else fl ! k)"
  by (auto simp: Let_def set_conflict_state_def nth_list_update)

lemma length_flag_pair: "length (flag_pair fl p) = length fl"
  by (cases p) (simp add: Let_def)

lemma foldl_flag_pair:
  "\<forall>p \<in> set ps. fst p < length fl \<and> snd p < length fl \<Longrightarrow>
   length (foldl flag_pair fl ps) = length fl
   \<and> (\<forall>k < length fl. foldl flag_pair fl ps ! k =
        (if k \<in> fst ` set ps \<union> snd ` set ps then (fl ! k)\<lparr>conflict_state := True\<rparr>
         else fl ! k))"
proof (induction ps arbitrary: fl)
  case Nil
  then show ?case by simp
next
  case (Cons p ps)
  obtain i j where p: "p = (i, j)" by (cases p)
  from Cons.prems p have ij: "i < length fl" "j < length fl" by auto
  let ?fl = "flag_pair fl p"
  have len: "length ?fl = length fl" by (rule length_flag_pair)
  from Cons.prems len have "\<forall>q \<in> set ps. fst q < length ?fl \<and> snd q < length ?fl"
    by simp
  from Cons.IH[OF this] have ih:
    "length (foldl flag_pair ?fl ps) = length fl"
    "\<And>k. k < length fl \<Longrightarrow> foldl flag_pair ?fl ps ! k =
        (if k \<in> fst ` set ps \<union> snd ` set ps then (?fl ! k)\<lparr>conflict_state := True\<rparr>
         else ?fl ! k)"
    using len by simp_all
  show ?case
  proof (intro conjI allI impI)
    show "length (foldl flag_pair fl (p # ps)) = length fl"
      using ih(1) by simp
  next
    fix k assume k: "k < length fl"
    have "?fl ! k = (if k = i \<or> k = j then (fl ! k)\<lparr>conflict_state := True\<rparr> else fl ! k)"
      unfolding p by (rule flag_pair_nth[OF ij k])
    with ih(2)[OF k] p
    show "foldl flag_pair fl (p # ps) ! k =
        (if k \<in> fst ` set (p # ps) \<union> snd ` set (p # ps)
         then (fl ! k)\<lparr>conflict_state := True\<rparr> else fl ! k)"
      by auto
  qed
qed

lemma scan_fleet_nth:
  assumes "k < length fl"
  shows "length (fst (scan_fleet g fl)) = length fl"
    and "fst (scan_fleet g fl) ! k =
      (fl ! k)\<lparr>conflict_state :=
         (\<exists>i j. i < j \<and> j < length fl \<and> in_conflict g (fl ! i) (fl ! j) \<and> (k = i \<or> k = j))\<rparr>"
proof -
  let ?ps = "conflict_pairs g fl"
  let ?cl = "map (set_conflict_state False) fl"
  have b: "\<forall>p \<in> set ?ps. fst p < length ?cl \<and> snd p < length ?cl"
    by (auto simp: set_conflict_pairs)
  note f = foldl_flag_pair[OF b]
  show "length (fst (scan_fleet g fl)) = length fl"
    using f by (simp add: scan_fleet_def Let_def)
  have m: "(k \<in> fst ` set ?ps \<union> snd ` set ?ps) =
     (\<exists>i j. i < j \<and> j < length fl \<and> in_conflict g (fl ! i) (fl ! j) \<and> (k = i \<or> k = j))"
    by (auto simp: set_conflict_pairs image_iff) 
  from f assms have "foldl flag_pair ?cl ?ps ! k =
        (if k \<in> fst ` set ?ps \<union> snd ` set ?ps then (?cl ! k)\<lparr>conflict_state := True\<rparr>
         else ?cl ! k)"
    by simp
  then show "fst (scan_fleet g fl) ! k =
      (fl ! k)\<lparr>conflict_state :=
         (\<exists>i j. i < j \<and> j < length fl \<and> in_conflict g (fl ! i) (fl ! j) \<and> (k = i \<or> k = j))\<rparr>"
    unfolding m using assms
    by (simp add: scan_fleet_def Let_def set_conflict_state_def)
qed


text \<open>
  C2. One call of the separation scan returns the number of index pairs \<open>i < j\<close> whose
  distance is below 5 nm and whose altitudes differ by less than 1000 ft. Afterwards
  the fleet has the same aircraft, changed in \<open>conflict_state\<close> only, and the flag of
  each is true exactly when it belongs to such a pair, whatever the flags were before.
\<close>

theorem check_separation_conflicts_correct:
  assumes "check_separation_conflicts w s = (n, s')"
  shows "n = card {(i, j). i < j \<and> j < length (aircraft s)
             \<and> nautical (geo w) (latitude (aircraft s ! i), longitude (aircraft s ! i))
                  (latitude (aircraft s ! j), longitude (aircraft s ! j)) < 5
             \<and> \<bar>altitude (aircraft s ! i) - altitude (aircraft s ! j)\<bar> < 1000}
    \<and> length (aircraft s') = length (aircraft s)
    \<and> (\<forall>k < length (aircraft s).
          conflict_state (aircraft s' ! k) =
            (\<exists>i j. i < j \<and> j < length (aircraft s) \<and> (k = i \<or> k = j)
               \<and> nautical (geo w) (latitude (aircraft s ! i), longitude (aircraft s ! i))
                    (latitude (aircraft s ! j), longitude (aircraft s ! j)) < 5
               \<and> \<bar>altitude (aircraft s ! i) - altitude (aircraft s ! j)\<bar> < 1000)
          \<and> aircraft s' ! k = (aircraft s ! k)\<lparr>conflict_state := conflict_state (aircraft s' ! k)\<rparr>)"
proof -
  let ?fl = "aircraft s"
  from assms have n: "n = length (conflict_pairs (geo w) ?fl)"
    and fl: "aircraft s' = fst (scan_fleet (geo w) ?fl)"
    by (auto simp: check_separation_conflicts_def scan_fleet_def Let_def)
  have c: "\<And>a b. in_conflict (geo w) a b =
     (nautical (geo w) (latitude a, longitude a) (latitude b, longitude b) < 5
      \<and> \<bar>altitude a - altitude b\<bar> < 1000)"
    by (simp add: in_conflict_def Let_def)
  have 1: "n = card {(i, j). i < j \<and> j < length ?fl
             \<and> nautical (geo w) (latitude (?fl ! i), longitude (?fl ! i))
                  (latitude (?fl ! j), longitude (?fl ! j)) < 5
             \<and> \<bar>altitude (?fl ! i) - altitude (?fl ! j)\<bar> < 1000}"
    unfolding n length_conflict_pairs c ..
  have 2: "length (aircraft s') = length ?fl"
  proof (cases "?fl")
    case Nil
    then show ?thesis by (simp add: fl scan_fleet_def conflict_pairs_def)
  next
    case (Cons a as)
    then have "0 < length ?fl" by simp
    from scan_fleet_nth(1)[OF this] show ?thesis by (simp add: fl)
  qed
  have 3: "\<And>k. k < length ?fl \<Longrightarrow>
          conflict_state (aircraft s' ! k) =
            (\<exists>i j. i < j \<and> j < length ?fl \<and> (k = i \<or> k = j)
               \<and> nautical (geo w) (latitude (?fl ! i), longitude (?fl ! i))
                    (latitude (?fl ! j), longitude (?fl ! j)) < 5
               \<and> \<bar>altitude (?fl ! i) - altitude (?fl ! j)\<bar> < 1000)
          \<and> aircraft s' ! k = (?fl ! k)\<lparr>conflict_state := conflict_state (aircraft s' ! k)\<rparr>"
  proof -
    fix k assume k: "k < length ?fl"
    have e: "(\<exists>i j. i < j \<and> j < length ?fl \<and> in_conflict (geo w) (?fl ! i) (?fl ! j)
                \<and> (k = i \<or> k = j)) =
          (\<exists>i j. i < j \<and> j < length ?fl \<and> (k = i \<or> k = j)
               \<and> nautical (geo w) (latitude (?fl ! i), longitude (?fl ! i))
                    (latitude (?fl ! j), longitude (?fl ! j)) < 5
               \<and> \<bar>altitude (?fl ! i) - altitude (?fl ! j)\<bar> < 1000)"
      unfolding c by blast
    from scan_fleet_nth(2)[OF k, of "geo w"] show
      "conflict_state (aircraft s' ! k) =
            (\<exists>i j. i < j \<and> j < length ?fl \<and> (k = i \<or> k = j)
               \<and> nautical (geo w) (latitude (?fl ! i), longitude (?fl ! i))
                    (latitude (?fl ! j), longitude (?fl ! j)) < 5
               \<and> \<bar>altitude (?fl ! i) - altitude (?fl ! j)\<bar> < 1000)
          \<and> aircraft s' ! k = (?fl ! k)\<lparr>conflict_state := conflict_state (aircraft s' ! k)\<rparr>"
      unfolding fl e by simp
  qed
  from 1 2 3 show ?thesis by blast
qed

theorem check_separation_conflicts_correct_witness:
  "conflict_state (aircraft (snd (check_separation_conflicts sample_world sample_simulator)) ! 0)
   \<and> conflict_state (aircraft (snd (check_separation_conflicts sample_world sample_simulator)) ! 1)
   \<and> length (aircraft (snd (check_separation_conflicts sample_world sample_simulator))) = 2"
proof -
  obtain n s' where c: "check_separation_conflicts sample_world sample_simulator = (n, s')"
    by (cases "check_separation_conflicts sample_world sample_simulator")
  have near: "(0::nat) < 1 \<and> 1 < length (aircraft sample_simulator)
     \<and> nautical (geo sample_world)
          (latitude (aircraft sample_simulator ! 0), longitude (aircraft sample_simulator ! 0))
          (latitude (aircraft sample_simulator ! 1), longitude (aircraft sample_simulator ! 1)) < 5
     \<and> \<bar>altitude (aircraft sample_simulator ! 0) - altitude (aircraft sample_simulator ! 1)\<bar> < 1000"
    by (simp add: sample_simulator_def sample_world_def flat_geodesy_def sample_jet_def
        nearby_jet_def)
  have len: "length (aircraft sample_simulator) = 2"
    by (simp add: sample_simulator_def)
  from check_separation_conflicts_correct[OF c] have
    l: "length (aircraft s') = length (aircraft sample_simulator)" and
    k: "\<And>k. k < length (aircraft sample_simulator) \<Longrightarrow>
          conflict_state (aircraft s' ! k) =
            (\<exists>i j. i < j \<and> j < length (aircraft sample_simulator) \<and> (k = i \<or> k = j)
               \<and> nautical (geo sample_world)
                    (latitude (aircraft sample_simulator ! i), longitude (aircraft sample_simulator ! i))
                    (latitude (aircraft sample_simulator ! j), longitude (aircraft sample_simulator ! j)) < 5
               \<and> \<bar>altitude (aircraft sample_simulator ! i) - altitude (aircraft sample_simulator ! j)\<bar> < 1000)"
    by blast+
  have "conflict_state (aircraft s' ! 0)"
    using k[of 0] near len by (simp only: ) blast
  moreover have "conflict_state (aircraft s' ! 1)"
    using k[of 1] near len by (simp only: ) blast
  ultimately show ?thesis
    using l len c by simp
qed


section \<open>Publishing\<close>


text \<open>
  C8. Publishing a report: when the producer is absent (or not true) nothing changes and
  nothing is raised; when the \<open>produce\<close> call raises an \<open>Exception\<close> the error is
  logged, the counter keeps its value, every other attribute is unchanged and the call
  returns normally, so the pass goes on. \<open>messages_sent\<close> grows by one exactly when the
  enqueue succeeds and is unchanged otherwise.
\<close>

theorem publish_message_drops_or_counts:
  assumes "publish_message w message s = (out, s')"
  shows "(active_producer w s = None \<longrightarrow> out = None \<and> s' = s)
    \<and> (\<forall>p topic e. active_producer w s = Some p
          \<and> config_get (config s) ''kafka'' ''topic'' = Inr topic
          \<and> produce w p topic (msg_icao_address message) (to_json w message) = Inl e
          \<and> is_Exception e
        \<longrightarrow> out = None \<and> messages_sent s' = messages_sent s
            \<and> s' = s\<lparr>trace := trace s @ [Log ERROR ''Failed to publish message'']\<rparr>)
    \<and> (messages_sent s' = messages_sent s + 1 \<longleftrightarrow> enqueue_succeeds w message s)
    \<and> (\<not> enqueue_succeeds w message s \<longrightarrow> messages_sent s' = messages_sent s)"
  using assms
  by (auto simp: publish_message_def publish_failed_def enqueue_succeeds_def traced_def
      split: option.splits sum.splits if_splits)

theorem publish_message_drops_or_counts_witness:
  "publish_message sample_world (generate_message ''t'' sample_jet) sample_simulator
     = (None, sample_simulator\<lparr>trace := [Log ERROR ''Failed to publish message'']\<rparr>)
   \<and> messages_sent (snd (publish_message sample_world (generate_message ''t'' sample_jet)
        sample_simulator)) = 7
   \<and> \<not> enqueue_succeeds sample_world (generate_message ''t'' sample_jet) sample_simulator"
proof -
  let ?m = "generate_message ''t'' sample_jet"
  obtain out s' where p: "publish_message sample_world ?m sample_simulator = (out, s')"
    by (cases "publish_message sample_world ?m sample_simulator")
  have k: "active_producer sample_world sample_simulator = Some 2"
    by (simp add: sample_simulator_def sample_world_def active_producer_def)
  have c: "config_get (config sample_simulator) ''kafka'' ''topic'' = Inr (YStr ''adsb_messages'')"
    by (simp add: sample_simulator_def default_config_def config_get_def)
  have e: "produce sample_world 2 (YStr ''adsb_messages'') (msg_icao_address ?m)
             (to_json sample_world ?m) = Inl BufferError"
    by (simp add: sample_world_def)
  have n: "\<not> enqueue_succeeds sample_world ?m sample_simulator"
    by (simp add: enqueue_succeeds_def k c e)
  from publish_message_drops_or_counts[OF p] k c e n
  have "out = None \<and> messages_sent s' = messages_sent sample_simulator
      \<and> s' = sample_simulator\<lparr>trace := trace sample_simulator @ [Log ERROR ''Failed to publish message'']\<rparr>"
    by auto
  with p n show ?thesis
    by (simp add: sample_simulator_def)
qed


section \<open>Emergencies over a run\<close>

lemma pass_frame_refl: "pass_frame s s"
  by (simp add: pass_frame_def emergencies_kept_def)

lemma pass_frame_trans: "pass_frame a b \<Longrightarrow> pass_frame b c \<Longrightarrow> pass_frame a c"
  by (auto simp: pass_frame_def emergencies_kept_def)

lemma pass_frame_same:
  "config s' = config s \<Longrightarrow> aircraft s' = aircraft s \<Longrightarrow>
   (kafka_producer s = None \<Longrightarrow> kafka_producer s' = None) \<Longrightarrow> pass_frame s s'"
  by (simp add: pass_frame_def emergencies_kept_def)

lemma for_each_frame:
  assumes body: "\<And>i s out s'. body i s = (out, s') \<Longrightarrow> pass_frame s s'"
  shows "for_each body is s = (out, s') \<Longrightarrow> pass_frame s s'"
proof (induction "is" arbitrary: s)
  case Nil
  then show ?case by (simp add: pass_frame_refl)
next
  case (Cons i "is")
  obtain o1 s1 where b: "body i s = (o1, s1)" by (cases "body i s")
  note r1 = body[OF b]
  show ?case
  proof (cases o1)
    case None
    with Cons.prems b have "for_each body is s1 = (out, s')" by simp
    from pass_frame_trans[OF r1 Cons.IH[OF this]] show ?thesis .
  next
    case (Some e)
    with Cons.prems b have "s' = s1" by simp
    with r1 show ?thesis by simp
  qed
qed

lemma traced_frame: "pass_frame s (traced ev s)"
  by (rule pass_frame_same) (simp_all add: traced_def)

lemma time_time_frame: "pass_frame s (snd (time_time s))"
  by (rule pass_frame_same) (simp_all add: time_time_def)

lemma emission_test_frame: "emission_test i s = (res, s') \<Longrightarrow> pass_frame s s'"
  by (rule pass_frame_same)
    (auto simp: emission_test_def traced_def Let_def split_beta split: sum.splits if_splits)

lemma publish_message_frame: "publish_message w m s = (out, s') \<Longrightarrow> pass_frame s s'"
  by (rule pass_frame_same)
    (auto simp: publish_message_def publish_failed_def traced_def active_producer_def
      split: sum.splits if_splits option.splits)

lemma pump_frame: "pump w s = (out, s') \<Longrightarrow> pass_frame s s'"
  by (rule pass_frame_same)
    (auto simp: pump_def traced_def active_producer_def split: sum.splits option.splits if_splits)

lemma log_statistics_frame: "pass_frame s (log_statistics s)"
  by (rule pass_frame_same)
    (simp_all add: log_statistics_def traced_def time_time_def Let_def)

lemma list_update_kept:
  "emergency_state a' = emergency_state (fl ! i) \<or> \<not> emergency_state (fl ! i) \<Longrightarrow>
   squawk a' = squawk (fl ! i) \<or> \<not> emergency_state (fl ! i) \<Longrightarrow>
   emergencies_kept fl (fl[i := a'])"
proof -
  assume e: "emergency_state a' = emergency_state (fl ! i) \<or> \<not> emergency_state (fl ! i)"
    and q: "squawk a' = squawk (fl ! i) \<or> \<not> emergency_state (fl ! i)"
  have "\<And>k. k < length fl \<Longrightarrow> emergency_state (fl ! k) \<Longrightarrow>
     emergency_state (fl[i := a'] ! k) \<and> squawk (fl[i := a'] ! k) = squawk (fl ! k)"
  proof -
    fix k assume k: "k < length fl" "emergency_state (fl ! k)"
    show "emergency_state (fl[i := a'] ! k) \<and> squawk (fl[i := a'] ! k) = squawk (fl ! k)"
    proof (cases "k = i")
      case True
      with k e q show ?thesis by simp
    next
      case False
      with k show ?thesis by simp
    qed
  qed
  then show ?thesis
    by (simp add: emergencies_kept_def)
qed

lemma advance_and_emit_frame:
  assumes "advance_and_emit w dt i s = (out, s')"
  shows "pass_frame s s'"
proof -
  let ?s1 = "traced (Advance i) s"
  obtain a r where u: "update_position (geo w) dt (aircraft ?s1 ! i) (rng ?s1) = Inr (a, r)"
    using update_position_total by blast
  let ?s2 = "?s1\<lparr>aircraft := (aircraft ?s1)[i := a], rng := r\<rparr>"
  have "emergencies_kept (aircraft s) (aircraft ?s2)"
    using update_position_frame(4,5)[OF u]
    by (simp add: traced_def list_update_kept)
  then have f2: "pass_frame s ?s2"
    by (simp add: pass_frame_def traced_def)
  obtain res s3 where e: "emission_test i ?s2 = (res, s3)"
    by (cases "emission_test i ?s2")
  note f3 = pass_frame_trans[OF f2 emission_test_frame[OF e]]
  show ?thesis
  proof (cases res)
    case (Inl x)
    with assms u e have "s' = s3" by (simp add: advance_and_emit_def Let_def)
    with f3 show ?thesis by simp
  next
    case (Inr b)
    show ?thesis
    proof (cases b)
      case False
      with Inr assms u e have "s' = s3" by (simp add: advance_and_emit_def Let_def)
      with f3 show ?thesis by simp
    next
      case True
      let ?s4 = "traced (Publish i) (snd (time_time s3))"
      from True Inr assms u e obtain m where "publish_message w m ?s4 = (out, s')"
        by (auto simp: advance_and_emit_def Let_def split_beta)
      from publish_message_frame[OF this]
        pass_frame_trans[OF pass_frame_trans[OF f3 time_time_frame] traced_frame]
      show ?thesis by (blast intro: pass_frame_trans)
    qed
  qed
qed

lemma check_separation_conflicts_frame:
  assumes "check_separation_conflicts w s = (n, s')"
  shows "pass_frame s s'"
proof -
  let ?fl = "aircraft s"
  from assms have fl: "aircraft s' = fst (scan_fleet (geo w) ?fl)"
    and cf: "config s' = config s" "kafka_producer s' = kafka_producer s"
    by (auto simp: check_separation_conflicts_def split_beta Let_def)
  have "emergencies_kept ?fl (fst (scan_fleet (geo w) ?fl))"
  proof (cases "?fl")
    case Nil
    then show ?thesis
      by (simp add: scan_fleet_def conflict_pairs_def emergencies_kept_def)
  next
    case (Cons a as)
    then have "0 < length ?fl" by simp
    from scan_fleet_nth(1)[OF this] scan_fleet_nth(2)[of _ ?fl "geo w"]
    show ?thesis
      by (simp add: emergencies_kept_def)
  qed
  with fl cf show ?thesis
    by (simp add: pass_frame_def)
qed

lemma sample_emergency_frame:
  assumes "sample_emergency f i s = (out, s')"
  shows "pass_frame s s'"
proof (cases "emergency_state (aircraft s ! i)")
  case True
  with assms show ?thesis by (simp add: sample_emergency_def pass_frame_refl)
next
  case False
  then have "\<And>a'. emergencies_kept (aircraft s) ((aircraft s)[i := a'])"
    by (simp add: list_update_kept)
  moreover have "emergencies_kept (aircraft s) (aircraft s)"
    by (simp add: emergencies_kept_def)
  ultimately show ?thesis
    using assms False
    by (auto simp: sample_emergency_def pass_frame_def traced_def Let_def split_beta
        split: sum.splits if_splits)
qed

lemma trigger_random_emergencies_frame:
  assumes "trigger_random_emergencies w s = (out, s')"
  shows "pass_frame s s'"
proof (cases "config_get (config s) ''simulation'' ''emergency_frequency''")
  case (Inl e)
  with assms show ?thesis by (simp add: trigger_random_emergencies_def pass_frame_refl)
next
  case (Inr f)
  with assms have "for_each (sample_emergency f) [0..<length (aircraft s)] s = (out, s')"
    by (simp add: trigger_random_emergencies_def)
  from for_each_frame[OF sample_emergency_frame this] show ?thesis .
qed


lemma tick_frame:
  assumes "tick w t s = (out, t', s')"
  shows "pass_frame s s'"
proof -
  let ?s1 = "snd (time_time s)"
  let ?dt = "fst (time_time s) - t"
  obtain o2 s2 where l: "for_each (advance_and_emit w ?dt) [0..<length (aircraft ?s1)] ?s1 = (o2, s2)"
    by (cases "for_each (advance_and_emit w ?dt) [0..<length (aircraft ?s1)] ?s1")
  have f2: "pass_frame s s2"
    by (rule pass_frame_trans[OF time_time_frame
          for_each_frame[OF advance_and_emit_frame l]])
  show ?thesis
  proof (cases o2)
    case (Some e)
    with assms l have "s' = s2" by (simp add: tick_def split_beta Let_def)
    with f2 show ?thesis by simp
  next
    case None
    obtain n s3 where c: "check_separation_conflicts w (traced SeparationScan s2) = (n, s3)"
      by (cases "check_separation_conflicts w (traced SeparationScan s2)")
    have f3: "pass_frame s s3"
      by (rule pass_frame_trans[OF pass_frame_trans[OF f2 traced_frame]
            check_separation_conflicts_frame[OF c]])
    obtain o4 s4 where e: "trigger_random_emergencies w (traced EmergencySampling s3) = (o4, s4)"
      by (cases "trigger_random_emergencies w (traced EmergencySampling s3)")
    have f4: "pass_frame s s4"
      by (rule pass_frame_trans[OF pass_frame_trans[OF f3 traced_frame]
            trigger_random_emergencies_frame[OF e]])
    show ?thesis
    proof (cases o4)
      case (Some e')
      with assms l None c e have "s' = s4" by (simp add: tick_def split_beta Let_def)
      with f4 show ?thesis by simp
    next
      case n4: None
      obtain o5 s5 where p: "pump w s4 = (o5, s5)" by (cases "pump w s4")
      have f5: "pass_frame s s5"
        by (rule pass_frame_trans[OF f4 pump_frame[OF p]])
      show ?thesis
      proof (cases o5)
        case (Some e')
        with assms l None c e n4 p have "s' = s5" by (simp add: tick_def split_beta Let_def)
        with f5 show ?thesis by simp
      next
        case n5: None
        with assms l None c e n4 p
        have "s' = traced Sleep (log_statistics (traced Statistics s5))"
          by (simp add: tick_def split_beta Let_def)
        with f5 show ?thesis
          by (blast intro: pass_frame_trans traced_frame log_statistics_frame)
      qed
    qed
  qed
qed

lemma tick_loop_frame:
  "tick_loop w fuel t s = Some (out, s') \<Longrightarrow> pass_frame s s'"
proof (induction fuel arbitrary: t s)
  case 0
  then show ?case by (simp add: pass_frame_refl split: if_splits)
next
  case (Suc fuel)
  show ?case
  proof (cases "running s")
    case False
    with Suc.prems show ?thesis by (simp add: pass_frame_refl)
  next
    case True
    obtain o1 t1 s1 where k: "tick w t s = (o1, t1, s1)" by (cases "tick w t s")
    note f1 = tick_frame[OF k]
    show ?thesis
    proof (cases o1)
      case None
      with Suc.prems True k have "tick_loop w fuel t1 s1 = Some (out, s')" by simp
      from pass_frame_trans[OF f1 Suc.IH[OF this]] show ?thesis .
    next
      case (Some e)
      with Suc.prems True k have "s' = s1" by simp
      with f1 show ?thesis by simp
    qed
  qed
qed

lemma stop_frame: "stop w s = (out, s') \<Longrightarrow> pass_frame s s'"
  by (rule pass_frame_same)
    (auto simp: stop_def traced_def time_time_def Let_def active_producer_def
      split: option.splits sum.splits if_splits)

lemma run_frame:
  assumes "run w fuel s = Some (out, s')"
  shows "pass_frame s s'"
proof -
  let ?s1 = "traced (Log INFO ''Starting ADS-B simulation'') (s\<lparr>running := True\<rparr>)"
  let ?s2 = "snd (time_time ?s1)"
  have f2: "pass_frame s ?s2"
    by (rule pass_frame_same) (simp_all add: traced_def time_time_def)
  from assms obtain o3 s3 where l: "tick_loop w fuel (fst (time_time ?s1)) ?s2 = Some (o3, s3)"
    by (auto simp: run_def run_loop_def Let_def split_beta split: option.splits)
  note f3 = pass_frame_trans[OF f2 tick_loop_frame[OF l]]
  from assms l have "s' = snd (stop w s3) \<or> (\<exists>ev. s' = snd (stop w (traced ev s3)))"
    by (auto simp: run_def run_loop_def Let_def split_beta
        split: option.splits if_splits prod.splits)
      (metis snd_conv)+
  then obtain s4 where f4: "pass_frame s3 s4" and s': "s' = snd (stop w s4)"
    using traced_frame pass_frame_refl by blast
  have "pass_frame s4 s'"
    unfolding s' by (rule stop_frame[of w s4 "fst (stop w s4)"]) simp
  with f3 f4 show ?thesis
    by (blast intro: pass_frame_trans)
qed

text \<open>
  C10. Emergency sampling leaves an aircraft that is in emergency untouched, and over
  one pass, over any number of passes of the loop and over a whole call of \<open>run\<close>
  (whether they end normally or by an exception) the fleet keeps its size and every
  aircraft that was in emergency is still in emergency with the same squawk.
\<close>

theorem emergencies_persist:
  "(emergency_state (aircraft s ! i) \<longrightarrow> sample_emergency f i s = (None, s))
   \<and> (tick w t s = (out, t', s') \<or> tick_loop w fuel t s = Some (out, s')
        \<or> run w fuel s = Some (out, s')
      \<longrightarrow> length (aircraft s') = length (aircraft s)
        \<and> (\<forall>k < length (aircraft s). emergency_state (aircraft s ! k) \<longrightarrow>
              emergency_state (aircraft s' ! k)
              \<and> squawk (aircraft s' ! k) = squawk (aircraft s ! k)))"
  using tick_frame[of w t s out t' s'] tick_loop_frame[of w fuel t s out s']
    run_frame[of w fuel s out s']
  by (auto simp: pass_frame_def emergencies_kept_def sample_emergency_def)

theorem emergencies_persist_witness:
  "emergency_state (aircraft sample_simulator ! 1)
   \<and> emergency_state (aircraft (snd (snd (tick sample_world 0 sample_simulator))) ! 1)
   \<and> squawk (aircraft (snd (snd (tick sample_world 0 sample_simulator))) ! 1) = ''7500''"
proof -
  obtain out t' s' where k: "tick sample_world 0 sample_simulator = (out, t', s')"
    by (cases "tick sample_world 0 sample_simulator")
  have e: "emergency_state (aircraft sample_simulator ! 1)"
    and q: "squawk (aircraft sample_simulator ! 1) = ''7500''"
    and l: "1 < length (aircraft sample_simulator)"
    by (simp_all add: sample_simulator_def nearby_jet_def)
  from emergencies_persist[of sample_simulator _ _ sample_world 0 out t' s'] k
  have "\<forall>k < length (aircraft sample_simulator).
          emergency_state (aircraft sample_simulator ! k) \<longrightarrow>
              emergency_state (aircraft s' ! k)
              \<and> squawk (aircraft s' ! k) = squawk (aircraft sample_simulator ! k)"
    by blast
  with e q l have "emergency_state (aircraft s' ! 1) \<and> squawk (aircraft s' ! 1) = ''7500''"
    by auto
  with e k show ?thesis by simp
qed


section \<open>The order of a pass\<close>

lemma calls_append: "calls (a @ b) = calls a @ calls b"
  by (simp add: calls_def)












lemma active_producer_absent: "kafka_producer s = None \<Longrightarrow> active_producer w s = None"
  by (simp add: active_producer_def)






lemma config_get_Exception: "config_get cfg a b = Inl e \<Longrightarrow> is_Exception e"
  by (auto simp: config_get_def split: sum.splits option.splits elim!: subscript.elims)
















section \<open>Start-up and shutdown\<close>


lemma sample_init:
  "ADSBSimulator_init sample_world ''config.yaml'' (\<lambda>n. 0) (\<lambda>n. 0) =
     Inr \<lparr>config = sample_config, aircraft = [], kafka_producer = Some 0, running = False,
          messages_sent = 0, start_time = 0, last_stats_time = 0,
          rng = (\<lambda>n. 0), clock = (\<lambda>n. 0),
          trace = [Log INFO ''Configuration loaded'', Log INFO ''Topic already exists'',
                   Log INFO ''Kafka producer configured successfully'',
                   Log INFO ''Generated aircraft'']\<rparr>"
  by (simp add: ADSBSimulator_init_def startup_state_def load_config_def sample_world_def
      sample_config_def setup_kafka_def config_get_def traced_def generate_aircraft_fleet_def)


lemma sample_run_loop:
  "run_loop sample_world (Suc 0)
     \<lparr>config = sample_config, aircraft = [], kafka_producer = Some 0, running = False,
          messages_sent = 0, start_time = 0, last_stats_time = 0,
          rng = (\<lambda>n. 0), clock = (\<lambda>n. 0),
          trace = [Log INFO ''Configuration loaded'', Log INFO ''Topic already exists'',
                   Log INFO ''Kafka producer configured successfully'',
                   Log INFO ''Generated aircraft'']\<rparr> =
   Some (Some (KeyError ''emergency_frequency''),
     \<lparr>config = sample_config, aircraft = [], kafka_producer = Some 0, running = True,
          messages_sent = 0, start_time = 0, last_stats_time = 0,
          rng = (\<lambda>n. 0), clock = (\<lambda>n. 0),
          trace = [Log INFO ''Configuration loaded'', Log INFO ''Topic already exists'',
                   Log INFO ''Kafka producer configured successfully'',
                   Log INFO ''Generated aircraft'', Log INFO ''Starting ADS-B simulation'',
                   SeparationScan, EmergencySampling]\<rparr>)"
  by (simp add: run_loop_def traced_def time_time_def tick_def
      check_separation_conflicts_def scan_fleet_def conflict_pairs_def
      trigger_random_emergencies_def config_get_def sample_config_def)

text \<open>
  The sample configuration has no \<open>emergency_frequency\<close>: the first pass raises
  \<open>KeyError\<close>, \<open>run\<close> logs it and drains the producer, and the process ends with exit
  code 0.
\<close>

theorem loop_error_exits_zero:
  "(case ADSBSimulator_init sample_world ''config.yaml'' (\<lambda>n. 0) (\<lambda>n. 0) of
      Inl e \<Rightarrow> None
    | Inr simulator \<Rightarrow> map_option fst (run_loop sample_world 1 simulator))
     = Some (Some (KeyError ''emergency_frequency''))
   \<and> is_Exception (KeyError ''emergency_frequency'')
   \<and> main sample_world ''config.yaml'' 1 (\<lambda>n. 0) (\<lambda>n. 0) =
        Some (Exit 0,
          [Log INFO ''Configuration loaded'', Log INFO ''Topic already exists'',
           Log INFO ''Kafka producer configured successfully'',
           Log INFO ''Generated aircraft'', Log INFO ''Starting ADS-B simulation'',
           SeparationScan, EmergencySampling, Log ERROR ''Simulation error'',
           Log INFO ''Flushing remaining messages'', Flush, Log INFO ''Simulation stopped''])"
proof -
  have st: "stop sample_world (traced (Log ERROR ''Simulation error'')
     \<lparr>config = sample_config, aircraft = [], kafka_producer = Some 0, running = True,
          messages_sent = 0, start_time = 0, last_stats_time = 0,
          rng = (\<lambda>n. 0), clock = (\<lambda>n. 0),
          trace = [Log INFO ''Configuration loaded'', Log INFO ''Topic already exists'',
                   Log INFO ''Kafka producer configured successfully'',
                   Log INFO ''Generated aircraft'', Log INFO ''Starting ADS-B simulation'',
                   SeparationScan, EmergencySampling]\<rparr>) =
    (None,
     \<lparr>config = sample_config, aircraft = [], kafka_producer = Some 0, running = False,
          messages_sent = 0, start_time = 0, last_stats_time = 0,
          rng = (\<lambda>n. 0), clock = (\<lambda>n. 0),
          trace = [Log INFO ''Configuration loaded'', Log INFO ''Topic already exists'',
           Log INFO ''Kafka producer configured successfully'',
           Log INFO ''Generated aircraft'', Log INFO ''Starting ADS-B simulation'',
           SeparationScan, EmergencySampling, Log ERROR ''Simulation error'',
           Log INFO ''Flushing remaining messages'', Flush,
           Log INFO ''Simulation stopped'']\<rparr>)"
    by (simp add: stop_def traced_def time_time_def active_producer_def sample_world_def)
  show ?thesis
    by (simp add: main_def run_def sample_init sample_run_loop st)
qed

lemma run_after_exception:
  assumes "run_loop w fuel s = Some (Some e, s1)" "is_Exception e"
  shows "run w fuel s = Some (stop w (traced (Log ERROR ''Simulation error'') s1))"
proof -
  from assms(2) have "e \<noteq> KeyboardInterrupt" by auto
  with assms show ?thesis by (simp add: run_def)
qed

lemma stop_trace:
  assumes "stop w s = (out, s')"
  shows "\<exists>evs. trace s' = trace s @ evs \<and> (active_producer w s \<noteq> None \<longrightarrow> Flush \<in> set evs)"
  using assms
  by (auto simp: stop_def traced_def time_time_def Let_def active_producer_def
      split: option.splits sum.splits if_splits)

text \<open>
  C6. When an \<open>Exception\<close> leaves the loop of \<open>run\<close>, the handler logs it and the
  \<open>finally\<close> clause calls \<open>stop\<close>, which flushes the producer if there is one; \<open>run\<close>
  then ends as \<open>stop\<close> does. If \<open>stop\<close> returns, \<open>main\<close> returns and the exit code is 0;
  the exit code is 1 only if \<open>stop\<close> itself raises an \<open>Exception\<close>, which the handler
  of \<open>main\<close> catches.
\<close>

theorem loop_exception_outcome:
  assumes "ADSBSimulator_init w config_path rng0 clock0 = Inr simulator"
    and "run_loop w fuel simulator = Some (Some e, s1)"
    and "is_Exception e"
    and "stop w (traced (Log ERROR ''Simulation error'') s1) = (out, s2)"
  shows "run w fuel simulator = Some (out, s2)
    \<and> Log ERROR ''Simulation error'' \<in> set (trace s2)
    \<and> (active_producer w s1 \<noteq> None \<longrightarrow> Flush \<in> set (trace s2))
    \<and> (out = None \<longrightarrow> main w config_path fuel rng0 clock0 = Some (Exit 0, trace s2))
    \<and> (\<forall>e'. out = Some e' \<and> is_Exception e' \<longrightarrow>
          main w config_path fuel rng0 clock0 =
            Some (Exit 1, trace s2 @ [Log ERROR ''Failed to start simulator'']))"
proof -
  let ?s = "traced (Log ERROR ''Simulation error'') s1"
  have r: "run w fuel simulator = Some (out, s2)"
    using run_after_exception[OF assms(2,3)] assms(4) by simp
  from stop_trace[OF assms(4)] obtain evs where
    t: "trace s2 = trace ?s @ evs" and f: "active_producer w ?s \<noteq> None \<longrightarrow> Flush \<in> set evs"
    by blast
  have a: "active_producer w ?s = active_producer w s1"
    by (simp add: active_producer_def traced_def)
  have 1: "Log ERROR ''Simulation error'' \<in> set (trace s2)"
    by (simp add: t traced_def)
  have 2: "active_producer w s1 \<noteq> None \<longrightarrow> Flush \<in> set (trace s2)"
    using f by (simp add: t a)
  have 3: "out = None \<longrightarrow> main w config_path fuel rng0 clock0 = Some (Exit 0, trace s2)"
    by (simp add: main_def assms(1) r)
  have 4: "\<forall>e'. out = Some e' \<and> is_Exception e' \<longrightarrow>
          main w config_path fuel rng0 clock0 =
            Some (Exit 1, trace s2 @ [Log ERROR ''Failed to start simulator''])"
    by (simp add: main_def assms(1) r)
  from r 1 2 3 4 show ?thesis by blast
qed

theorem loop_exception_outcome_witness:
  "\<exists>simulator s1 s2.
     ADSBSimulator_init sample_world ''config.yaml'' (\<lambda>n. 0) (\<lambda>n. 0) = Inr simulator
     \<and> run_loop sample_world 1 simulator = Some (Some (KeyError ''emergency_frequency''), s1)
     \<and> is_Exception (KeyError ''emergency_frequency'')
     \<and> stop sample_world (traced (Log ERROR ''Simulation error'') s1) = (None, s2)
     \<and> run sample_world 1 simulator = Some (None, s2)
     \<and> Flush \<in> set (trace s2)
     \<and> main sample_world ''config.yaml'' 1 (\<lambda>n. 0) (\<lambda>n. 0) = Some (Exit 0, trace s2)"
proof -
  let ?sim = "\<lparr>config = sample_config, aircraft = [], kafka_producer = Some (0::nat),
          running = False,
          messages_sent = 0, start_time = 0, last_stats_time = 0,
          rng = (\<lambda>n. 0), clock = (\<lambda>n. 0),
          trace = [Log INFO ''Configuration loaded'', Log INFO ''Topic already exists'',
                   Log INFO ''Kafka producer configured successfully'',
                   Log INFO ''Generated aircraft'']\<rparr>"
  let ?s1 = "\<lparr>config = sample_config, aircraft = [], kafka_producer = Some (0::nat),
          running = True,
          messages_sent = 0, start_time = 0, last_stats_time = 0,
          rng = (\<lambda>n. 0), clock = (\<lambda>n. 0),
          trace = [Log INFO ''Configuration loaded'', Log INFO ''Topic already exists'',
                   Log INFO ''Kafka producer configured successfully'',
                   Log INFO ''Generated aircraft'', Log INFO ''Starting ADS-B simulation'',
                   SeparationScan, EmergencySampling]\<rparr>"
  have e: "is_Exception (KeyError ''emergency_frequency'')" by simp
  obtain s2 where st: "stop sample_world (traced (Log ERROR ''Simulation error'') ?s1) = (None, s2)"
    by (simp add: stop_def traced_def time_time_def active_producer_def sample_world_def)
  have ap: "active_producer sample_world ?s1 \<noteq> None"
    by (simp add: active_producer_def sample_world_def)
  have rl: "run_loop sample_world 1 ?sim = Some (Some (KeyError ''emergency_frequency''), ?s1)"
    using sample_run_loop by simp
  from loop_exception_outcome[OF sample_init rl e st] ap
  have "run sample_world 1 ?sim = Some (None, s2) \<and> Flush \<in> set (trace s2)
    \<and> main sample_world ''config.yaml'' 1 (\<lambda>n. 0) (\<lambda>n. 0) = Some (Exit 0, trace s2)"
    by blast
  with sample_init rl e st show ?thesis by blast
qed


lemma setup_kafka_config: "setup_kafka w s = (out, s') \<Longrightarrow> config s' = config s"
  by (auto simp: setup_kafka_def setup_kafka_failed_def traced_def Let_def
      split: sum.splits if_splits option.splits)

lemma generate_aircraft_fleet_missing:
  assumes "config_get (config s) ''simulation'' ''num_aircraft'' = Inl e
     \<or> (\<exists>n. config_get (config s) ''simulation'' ''num_aircraft'' = Inr n)
        \<and> config_get (config s) ''aircraft_types'' ''jet_ratio'' = Inl e"
  shows "generate_aircraft_fleet w s = (Some e, s)"
proof (cases "config_get (config s) ''simulation'' ''num_aircraft''")
  case (Inl e1)
  with assms show ?thesis
    by (simp add: generate_aircraft_fleet_def)
next
  case (Inr n)
  with assms have j: "config_get (config s) ''aircraft_types'' ''jet_ratio'' = Inl e"
    by simp
  from Inr j show ?thesis
    by (simp add: generate_aircraft_fleet_def)
qed

lemma config_get_absent_key:
  "subscript cfg section = Inr (YDict kvs) \<Longrightarrow> map_of kvs key = None \<Longrightarrow>
   config_get cfg section key = Inl (KeyError key)"
  by (simp add: config_get_def)

lemma config_get_absent_section:
  "cfg = YDict secs \<Longrightarrow> map_of secs section = None \<Longrightarrow>
   config_get cfg section key = Inl (KeyError section)"
  by (simp add: config_get_def)

lemma init_missing_key:
  assumes "read_config w path = Inr cfg"
    and "setup_kafka w (startup_state cfg (Log INFO ''Configuration loaded'') rng0 clock0)
          = (None, s1)"
    and "config_get cfg ''simulation'' ''num_aircraft'' = Inl e
     \<or> (\<exists>n. config_get cfg ''simulation'' ''num_aircraft'' = Inr n)
        \<and> config_get cfg ''aircraft_types'' ''jet_ratio'' = Inl e"
  shows "generate_aircraft_fleet w s1 = (Some e, s1)"
    "ADSBSimulator_init w path rng0 clock0 = Inl (e, trace s1)"
    "is_Exception e"
    "main w path fuel rng0 clock0
       = Some (Exit 1, trace s1 @ [Log ERROR ''Failed to start simulator''])"
proof -
  from setup_kafka_config[OF assms(2)] have c: "config s1 = cfg"
    by (simp add: startup_state_def)
  from assms(3) show f: "generate_aircraft_fleet w s1 = (Some e, s1)"
    unfolding c[symmetric] by (rule generate_aircraft_fleet_missing)
  from assms(1,2) f show i: "ADSBSimulator_init w path rng0 clock0 = Inl (e, trace s1)"
    by (simp add: ADSBSimulator_init_def load_config_def)
  from assms(3) show x: "is_Exception e"
    using config_get_Exception by blast
  from i x show "main w path fuel rng0 clock0
       = Some (Exit 1, trace s1 @ [Log ERROR ''Failed to start simulator''])"
    by (simp add: main_def)
qed

text \<open>
  C7. A configuration file that loads and parses is used as it is; the default record
  is returned exactly when reading the file raises an \<open>Exception\<close>. No absent key is
  given a default: looking up a key that a section lacks, or a section that the file
  lacks, raises \<open>KeyError\<close> for it. With a parsed file in which
  \<open>simulation.num_aircraft\<close> cannot be looked up, or in which it can and
  \<open>aircraft_types.jet_ratio\<close> cannot, and Kafka set-up having returned,
  \<open>_generate_aircraft_fleet\<close> raises the exception of that look-up before it builds
  any aircraft or logs anything; the constructor raises that same exception, which
  is an \<open>Exception\<close>, and the process then logs the failure after the start-up records
  and ends with exit code 1.
\<close>

theorem parsed_config_has_no_defaults:
  "(read_config w path = Inr cfg \<longrightarrow>
      load_config w path = Inr (cfg, Log INFO ''Configuration loaded''))
   \<and> (read_config w path = Inl x \<and> is_Exception x \<longrightarrow>
      load_config w path = Inr (default_config, Log ERROR ''Failed to load config''))
   \<and> (subscript cfg section = Inr (YDict kvs) \<and> map_of kvs key = None \<longrightarrow>
      config_get cfg section key = Inl (KeyError key))
   \<and> (cfg = YDict secs \<and> map_of secs section = None \<longrightarrow>
      config_get cfg section key = Inl (KeyError section))
   \<and> (read_config w path = Inr cfg
        \<and> setup_kafka w (startup_state cfg (Log INFO ''Configuration loaded'') rng0 clock0)
            = (None, s1)
        \<and> (config_get cfg ''simulation'' ''num_aircraft'' = Inl e
           \<or> (\<exists>n. config_get cfg ''simulation'' ''num_aircraft'' = Inr n)
              \<and> config_get cfg ''aircraft_types'' ''jet_ratio'' = Inl e) \<longrightarrow>
      generate_aircraft_fleet w s1 = (Some e, s1)
      \<and> ADSBSimulator_init w path rng0 clock0 = Inl (e, trace s1)
      \<and> is_Exception e
      \<and> main w path fuel rng0 clock0
          = Some (Exit 1, trace s1 @ [Log ERROR ''Failed to start simulator'']))"
proof (intro conjI impI)
  assume "read_config w path = Inr cfg"
  then show "load_config w path = Inr (cfg, Log INFO ''Configuration loaded'')"
    by (simp add: load_config_def)
next
  assume "read_config w path = Inl x \<and> is_Exception x"
  then show "load_config w path = Inr (default_config, Log ERROR ''Failed to load config'')"
    by (simp add: load_config_def)
next
  assume "subscript cfg section = Inr (YDict kvs) \<and> map_of kvs key = None"
  then show "config_get cfg section key = Inl (KeyError key)"
    using config_get_absent_key by blast
next
  assume "cfg = YDict secs \<and> map_of secs section = None"
  then show "config_get cfg section key = Inl (KeyError section)"
    using config_get_absent_section by blast
next
  assume a: "read_config w path = Inr cfg
        \<and> setup_kafka w (startup_state cfg (Log INFO ''Configuration loaded'') rng0 clock0)
            = (None, s1)
        \<and> (config_get cfg ''simulation'' ''num_aircraft'' = Inl e
           \<or> (\<exists>n. config_get cfg ''simulation'' ''num_aircraft'' = Inr n)
              \<and> config_get cfg ''aircraft_types'' ''jet_ratio'' = Inl e)"
  then have r: "read_config w path = Inr cfg"
    and k: "setup_kafka w (startup_state cfg (Log INFO ''Configuration loaded'') rng0 clock0)
            = (None, s1)"
    and m: "config_get cfg ''simulation'' ''num_aircraft'' = Inl e
           \<or> (\<exists>n. config_get cfg ''simulation'' ''num_aircraft'' = Inr n)
              \<and> config_get cfg ''aircraft_types'' ''jet_ratio'' = Inl e"
    by simp_all
  show "generate_aircraft_fleet w s1 = (Some e, s1)"
    by (rule init_missing_key(1)[OF r k m])
  show "ADSBSimulator_init w path rng0 clock0 = Inl (e, trace s1)"
    by (rule init_missing_key(2)[OF r k m])
  show "is_Exception e"
    by (rule init_missing_key(3)[OF r k m])
  show "main w path fuel rng0 clock0
          = Some (Exit 1, trace s1 @ [Log ERROR ''Failed to start simulator''])"
    by (rule init_missing_key(4)[OF r k m])
qed

lemma partial_setup_kafka:
  "setup_kafka sample_world
     (startup_state partial_config (Log INFO ''Configuration loaded'') (\<lambda>n. 0) (\<lambda>n. 0))
   = (None,
      \<lparr>config = partial_config, aircraft = [], kafka_producer = Some 0, running = False,
       messages_sent = 0, start_time = 0, last_stats_time = 0,
       rng = (\<lambda>n. 0), clock = (\<lambda>n. 0),
       trace = [Log INFO ''Configuration loaded'', Log INFO ''Topic already exists'',
                Log INFO ''Kafka producer configured successfully'']\<rparr>)"
  by (simp add: startup_state_def sample_world_def partial_config_def
      setup_kafka_def config_get_def traced_def)

lemma partial_init:
  "ADSBSimulator_init sample_world ''partial.yaml'' (\<lambda>n. 0) (\<lambda>n. 0)
     = Inl (KeyError ''num_aircraft'',
            [Log INFO ''Configuration loaded'', Log INFO ''Topic already exists'',
             Log INFO ''Kafka producer configured successfully''])"
proof -
  have l: "load_config sample_world ''partial.yaml''
      = Inr (partial_config, Log INFO ''Configuration loaded'')"
    by (simp add: load_config_def sample_world_def)
  show ?thesis
    unfolding ADSBSimulator_init_def l
    by (simp add: partial_setup_kafka)
      (simp add: generate_aircraft_fleet_def config_get_def partial_config_def)
qed

theorem parsed_config_has_no_defaults_witness:
  "read_config sample_world ''partial.yaml'' = Inr partial_config
   \<and> subscript partial_config ''simulation''
       = Inr (YDict [(''message_interval_min'', YInt 1), (''message_interval_max'', YInt 5),
                     (''emergency_frequency'', YFloat 0.001)])
   \<and> map_of [(''message_interval_min'', YInt 1), (''message_interval_max'', YInt 5),
             (''emergency_frequency'', YFloat 0.001)] ''num_aircraft'' = None
   \<and> config_get partial_config ''simulation'' ''num_aircraft'' = Inl (KeyError ''num_aircraft'')
   \<and> load_config sample_world ''partial.yaml''
       = Inr (partial_config, Log INFO ''Configuration loaded'')
   \<and> ADSBSimulator_init sample_world ''partial.yaml'' (\<lambda>n. 0) (\<lambda>n. 0)
       = Inl (KeyError ''num_aircraft'',
              [Log INFO ''Configuration loaded'', Log INFO ''Topic already exists'',
               Log INFO ''Kafka producer configured successfully''])
   \<and> is_Exception (KeyError ''num_aircraft'')
   \<and> main sample_world ''partial.yaml'' 1 (\<lambda>n. 0) (\<lambda>n. 0)
       = Some (Exit 1,
              [Log INFO ''Configuration loaded'', Log INFO ''Topic already exists'',
               Log INFO ''Kafka producer configured successfully'',
               Log ERROR ''Failed to start simulator''])"
proof -
  have r: "read_config sample_world ''partial.yaml'' = Inr partial_config"
    by (simp add: sample_world_def)
  have s: "subscript partial_config ''simulation''
       = Inr (YDict [(''message_interval_min'', YInt 1), (''message_interval_max'', YInt 5),
                     (''emergency_frequency'', YFloat 0.001)])"
    by (simp add: partial_config_def)
  have m: "map_of [(''message_interval_min'', YInt 1), (''message_interval_max'', YInt 5),
             (''emergency_frequency'', YFloat 0.001)] ''num_aircraft'' = None"
    by simp
  note t = parsed_config_has_no_defaults[of sample_world "''partial.yaml''" partial_config
      _ "''simulation''"
      "[(''message_interval_min'', YInt 1), (''message_interval_max'', YInt 5),
        (''emergency_frequency'', YFloat 0.001)]" "''num_aircraft''" _
      "\<lambda>n. 0" "\<lambda>n. 0"
      "\<lparr>config = partial_config, aircraft = [], kafka_producer = Some 0, running = False,
       messages_sent = 0, start_time = 0, last_stats_time = 0,
       rng = (\<lambda>n. 0), clock = (\<lambda>n. 0),
       trace = [Log INFO ''Configuration loaded'', Log INFO ''Topic already exists'',
                Log INFO ''Kafka producer configured successfully'']\<rparr>"
      "KeyError ''num_aircraft''" 1]
  from t r s m have g: "config_get partial_config ''simulation'' ''num_aircraft''
      = Inl (KeyError ''num_aircraft'')"
    by blast
  from t r have l: "load_config sample_world ''partial.yaml''
       = Inr (partial_config, Log INFO ''Configuration loaded'')"
    by blast
  from t r g partial_setup_kafka
  have "ADSBSimulator_init sample_world ''partial.yaml'' (\<lambda>n. 0) (\<lambda>n. 0)
       = Inl (KeyError ''num_aircraft'',
              [Log INFO ''Configuration loaded'', Log INFO ''Topic already exists'',
               Log INFO ''Kafka producer configured successfully''])
   \<and> is_Exception (KeyError ''num_aircraft'')
   \<and> main sample_world ''partial.yaml'' 1 (\<lambda>n. 0) (\<lambda>n. 0)
       = Some (Exit 1,
              [Log INFO ''Configuration loaded'', Log INFO ''Topic already exists'',
               Log INFO ''Kafka producer configured successfully'',
               Log ERROR ''Failed to start simulator''])"
    by simp
  with r s m g l show ?thesis by simp
qed

text \<open>
  A parsed file without \<open>num_aircraft\<close>: no default of 75 is filled in. Fleet
  generation raises \<open>KeyError\<close> for the key, no aircraft is built, and the process
  ends with exit code 1 after the three start-up records and the failure record.
\<close>

theorem missing_key_stops_startup:
  "load_config sample_world ''partial.yaml''
       = Inr (partial_config, Log INFO ''Configuration loaded'')
   \<and> config_get partial_config ''simulation'' ''num_aircraft'' = Inl (KeyError ''num_aircraft'')
   \<and> ADSBSimulator_init sample_world ''partial.yaml'' (\<lambda>n. 0) (\<lambda>n. 0)
       = Inl (KeyError ''num_aircraft'',
              [Log INFO ''Configuration loaded'', Log INFO ''Topic already exists'',
               Log INFO ''Kafka producer configured successfully''])
   \<and> main sample_world ''partial.yaml'' 1 (\<lambda>n. 0) (\<lambda>n. 0)
       = Some (Exit 1,
              [Log INFO ''Configuration loaded'', Log INFO ''Topic already exists'',
               Log INFO ''Kafka producer configured successfully'',
               Log ERROR ''Failed to start simulator''])"
proof -
  have "load_config sample_world ''partial.yaml''
       = Inr (partial_config, Log INFO ''Configuration loaded'')"
    by (simp add: load_config_def sample_world_def)
  moreover have "config_get partial_config ''simulation'' ''num_aircraft''
      = Inl (KeyError ''num_aircraft'')"
    by (simp add: partial_config_def config_get_def)
  moreover have "main sample_world ''partial.yaml'' 1 (\<lambda>n. 0) (\<lambda>n. 0)
       = Some (Exit 1,
              [Log INFO ''Configuration loaded'', Log INFO ''Topic already exists'',
               Log INFO ''Kafka producer configured successfully'',
               Log ERROR ''Failed to start simulator''])"
    by (simp add: main_def partial_init)
  ultimately show ?thesis
    using partial_init by simp
qed


end
